theory Spec2Isabelle
  imports Complex_Main "HOL-Library.Log_Nat"
begin

section \<open>Draw auction bot: data model\<close>

text \<open>
  The repository holds two versions of the draw auction module:
  \<^verbatim>\<open>packages/library/src/drawAuction.ts\<close> (start draw / finish draw) and
  \<^verbatim>\<open>unnamed/part_000\<close> (start draw / award draw). Both are embedded. Where the two
  files use the same name for different code, the constant of \<^verbatim>\<open>part_000\<close> carries the
  suffix \<open>_p0\<close>; code that is the same text in both files is embedded once.

  USD amounts are JavaScript numbers, that is IEEE 754 doubles; they are embedded as the
  type \<open>number\<close> below, with the rounding of every operation. ethers \<^verbatim>\<open>BigNumber\<close>s are
  unbounded integers; gas quantities and the gas price are unsigned and embedded as
  naturals.
\<close>

subsection \<open>JavaScript numbers\<close>

text \<open>
  A double is a finite value, an infinity or \<^verbatim>\<open>NaN\<close>. A finite value is kept as the
  rational it denotes; the sign of zero is not kept, since the subtractions, comparisons
  and divisions by a nonzero constant of the source give the same result for both zeros.
  \<open>round_double\<close> rounds a rational to the nearest double, ties to even: \<open>e\<close> is the
  binary exponent of the value (at least \<open>-1022\<close>, below which doubles are subnormal),
  \<open>q\<close> the spacing of the doubles at that exponent, \<open>m\<close> the significand of at most 53
  bits. The rounded value \<open>m * q\<close> is at least \<open>2 ^ 1024\<close>, and so overflows, exactly
  when \<open>e \<ge> 1024\<close>, or \<open>e = 1023\<close> and the significand has been rounded up to
  \<open>2 ^ 53\<close>. A decimal literal \<^verbatim>\<open>4.04\<close> of the source is \<open>round_double (404 / 100)\<close>.
\<close>

datatype number = Num rat | PosInf | NegInf | NaN

definition pow2 :: "int \<Rightarrow> rat" where
  "pow2 k = (if 0 \<le> k then 2 ^ nat k else 1 / 2 ^ nat (- k))"

definition floor_log2 :: "rat \<Rightarrow> int" where
  "floor_log2 x = (if 1 \<le> x then bitlen \<lfloor>x\<rfloor> - 1 else - bitlen (\<lceil>1 / x\<rceil> - 1))"

definition round_half_even :: "rat \<Rightarrow> int" where
  "round_half_even y =
     (let f = \<lfloor>y\<rfloor>; d = y - of_int f
      in if d < 1 / 2 then f else if 1 / 2 < d then f + 1 else if even f then f else f + 1)"

definition round_double :: "rat \<Rightarrow> number" where
  "round_double x =
     (if x = 0 then Num 0
      else
        (let e = max (floor_log2 \<bar>x\<bar>) (- 1022);
             q = pow2 (e - 52);
             m = round_half_even (x / q)
         in if 1024 \<le> e \<or> (e = 1023 \<and> \<bar>m\<bar> = 9007199254740992)
            then (if 0 < x then PosInf else NegInf)
            else Num (of_int m * q)))"

text \<open>\<^verbatim>\<open>a - b\<close>, \<^verbatim>\<open>a / b\<close>, \<^verbatim>\<open>a > b\<close> and \<^verbatim>\<open>Math.ceil(a)\<close> on numbers.\<close>

fun js_sub :: "number \<Rightarrow> number \<Rightarrow> number" where
  "js_sub NaN _ = NaN"
| "js_sub _ NaN = NaN"
| "js_sub PosInf PosInf = NaN"
| "js_sub NegInf NegInf = NaN"
| "js_sub PosInf _ = PosInf"
| "js_sub NegInf _ = NegInf"
| "js_sub (Num a) PosInf = NegInf"
| "js_sub (Num a) NegInf = PosInf"
| "js_sub (Num a) (Num b) = round_double (a - b)"

fun js_div :: "number \<Rightarrow> number \<Rightarrow> number" where
  "js_div NaN _ = NaN"
| "js_div _ NaN = NaN"
| "js_div (Num a) (Num b) =
     (if b = 0 then (if a = 0 then NaN else if 0 < a then PosInf else NegInf)
      else round_double (a / b))"
| "js_div (Num a) _ = Num 0"
| "js_div PosInf (Num b) = (if 0 \<le> b then PosInf else NegInf)"
| "js_div NegInf (Num b) = (if 0 \<le> b then NegInf else PosInf)"
| "js_div _ _ = NaN"

fun js_gt :: "number \<Rightarrow> number \<Rightarrow> bool" where
  "js_gt (Num a) (Num b) = (b < a)"
| "js_gt (Num a) NegInf = True"
| "js_gt PosInf (Num b) = True"
| "js_gt PosInf NegInf = True"
| "js_gt _ _ = False"

fun js_ceil :: "number \<Rightarrow> number" where
  "js_ceil (Num a) = Num (of_int \<lceil>a\<rceil>)"
| "js_ceil x = x"

subsection \<open>Objects, calls and the snapshot\<close>

type_synonym address = string

datatype jsval = Str string | Big int

text \<open>
  A plain JavaScript object whose keys are non-numeric strings: its own properties in
  insertion order, which is the order \<^verbatim>\<open>Object.values\<close> and the spread operator follow.
\<close>

type_synonym obj = "(string \<times> jsval) list"

definition Object_values :: "obj \<Rightarrow> jsval list" where
  "Object_values ob = map snd ob"

definition js_get :: "obj \<Rightarrow> string \<Rightarrow> jsval option" where
  "js_get ob k = map_of ob k"

definition js_delete :: "string \<Rightarrow> obj \<Rightarrow> obj" where
  "js_delete k ob = filter (\<lambda>p. fst p \<noteq> k) ob"

text \<open>
  A contract call as ethers receives it: the contract instance (its address), the name of
  the contract function, the positional arguments and the \<^verbatim>\<open>{ value }\<close> override
  (\<open>None\<close> when no override object is passed or its value is undefined). The result of
  \<^verbatim>\<open>contract.populateTransaction.f(...)\<close> is embedded as the call it encodes;
  \<^verbatim>\<open>populatedTx.data\<close> is the encoded function and arguments.
\<close>

record call =
  target :: address
  fname :: string
  args :: "jsval list"
  callValue :: "jsval option"

definition txData :: "call \<Rightarrow> string \<times> jsval list" where
  "txData c = (fname c, args c)"

text \<open>
  The enum \<^verbatim>\<open>DrawAuctionState\<close> and the types \<^verbatim>\<open>DrawAuctionConfig\<close>,
  \<^verbatim>\<open>DrawAuctionContext\<close> and \<^verbatim>\<open>DrawAuctionContracts\<close> are declared in modules that are
  not part of the source tree at hand (\<^verbatim>\<open>./utils/getDrawAuctionContextMulticall\<close>,
  \<^verbatim>\<open>./types\<close>). The records carry the fields the two files read. A falsy
  \<^verbatim>\<open>context.drawAuctionState\<close> is \<open>None\<close>, and so is a reward token or a reward amount
  that the reader left undefined; a USD amount that is undefined behaves as \<open>NaN\<close> in the
  arithmetic of the source. The table \<^verbatim>\<open>NETWORK_NATIVE_TOKEN_INFO\<close> of
  \<^verbatim>\<open>./constants/network\<close> is not in the source tree either: it is a parameter, a map from
  chain ids to entries.
\<close>

record RewardToken =
  symbol :: string
  decimals :: nat
  assetRateUsd :: number

record NativeTokenInfo =
  nativeSymbol :: string
  nativeDecimals :: nat

datatype DrawAuctionState = Start | Award | Finish

record DrawAuctionConfig =
  chainId :: nat
  rewardRecipient :: address
  useFlashbots :: bool
  minProfitThresholdUsd :: number

record DrawAuctionContracts =
  prizePoolContract :: address
  drawManagerContract :: address
  rngWitnetContract :: "address option"
  rngBlockhashContract :: "address option"

record DrawAuctionContext =
  drawAuctionState :: "DrawAuctionState option"
  nativeTokenMarketRateUsd :: number
  rewardToken :: "RewardToken option"
  rngFeeEstimate :: int
  rngFeeEstimateUsd :: number
  canStartDraw :: bool
  canAwardDraw :: bool
  prizePoolDrawClosesAt :: number
  startDrawReward :: "int option"
  startDrawRewardUsd :: number
  finishDrawReward :: "int option"
  finishDrawRewardUsd :: number
  startDrawFee :: "int option"
  startDrawFeeUsd :: number
  awardDrawFee :: "int option"
  awardDrawFeeUsd :: number
  auctionClosesSoon :: bool

text \<open>
  What a cycle does to the outside world is a list of events, in order: the lines it
  reports and the calls it makes to its collaborators.
\<close>

datatype event =
    PrintContext number
  | Processing DrawAuctionState
  | Console string
  | ProfitReport number number bool
  | ForceReport bool
  | EstimateGas call
  | GetGasPrice
  | GetFeesUsd nat nat number "string \<times> jsval list"
  | SendPopulatedTx call nat nat bool obj
  | TransactionSent string

text \<open>
  The answers of the collaborators, fixed for a cycle: \<open>estimateGas\<close> is
  \<^verbatim>\<open>contract.estimateGas.f(...)\<close> (\<open>None\<close> when it rejects), \<open>getGasPrice\<close> is
  \<^verbatim>\<open>provider.getGasPrice()\<close>, \<open>getFeesUsd\<close> is the \<^verbatim>\<open>avgFeeUsd\<close> of
  \<^verbatim>\<open>getFeesUsd(chainId, gasLimit, rate, provider, data)\<close>, and \<open>sendPopulatedTx\<close> is the hash
  of the transaction that \<^verbatim>\<open>sendPopulatedTx\<close> returns (\<open>None\<close> when it raises). The gas
  price and the fee conversion are taken to answer.
\<close>

record Collaborators =
  estimateGas :: "call \<Rightarrow> nat option"
  getGasPrice :: nat
  getFeesUsd :: "nat \<Rightarrow> nat \<Rightarrow> number \<Rightarrow> string \<times> jsval list \<Rightarrow> number"
  sendPopulatedTx :: "call \<Rightarrow> nat \<Rightarrow> nat \<Rightarrow> bool \<Rightarrow> obj \<Rightarrow> string option"

text \<open>
  \<open>TypeError\<close> is what JavaScript throws when a property of \<^verbatim>\<open>undefined\<close> is read,
  \<open>EthersError\<close> is what \<^verbatim>\<open>ethers.utils.formatUnits\<close> throws for a value that is no
  \<^verbatim>\<open>BigNumber\<close>, and \<open>SubmissionFailed\<close> is an exception of \<^verbatim>\<open>sendPopulatedTx\<close>. A step of
  a cycle yields the events it caused and either the exception that ended it or its value.
\<close>

datatype error = TypeError | EthersError | SubmissionFailed

type_synonym 'a io = "event list \<times> (error + 'a)"

definition io_bind :: "'a io \<Rightarrow> ('a \<Rightarrow> 'b io) \<Rightarrow> 'b io" where
  "io_bind m f =
     (case m of
        (es, Inl e) \<Rightarrow> (es, Inl e)
      | (es, Inr x) \<Rightarrow> (case f x of (es', r) \<Rightarrow> (es @ es', r)))"

definition io_throw :: "error \<Rightarrow> 'a io" where
  "io_throw e = ([], Inl e)"

definition io_log :: "event list \<Rightarrow> unit io" where
  "io_log es = (es, Inr ())"

definition DRAW_GAS_LIMIT_BUFFER :: nat where
  "DRAW_GAS_LIMIT_BUFFER = 100000"

definition MAX_FORCE_RELAY_LOSS_THRESHOLD_USD :: number where
  "MAX_FORCE_RELAY_LOSS_THRESHOLD_USD = Num (- 5)"

section \<open>Profitability\<close>

text \<open>
  \<^verbatim>\<open>calculateStartDrawProfit\<close> of \<^verbatim>\<open>drawAuction.ts\<close>: it reports gross and net profit and
  the flag, and returns the flag. \<^verbatim>\<open>grossProfitUsd - gasCostUsd - context.rngFeeEstimateUsd\<close>
  is two subtractions of doubles, from the left.
\<close>

definition calculateStartDrawProfit ::
  "DrawAuctionConfig \<Rightarrow> DrawAuctionContext \<Rightarrow> number \<Rightarrow> event list \<times> bool" where
  "calculateStartDrawProfit config context gasCostUsd =
     (let grossProfitUsd = startDrawRewardUsd context;
          netProfitUsd = js_sub (js_sub grossProfitUsd gasCostUsd) (rngFeeEstimateUsd context);
          profitable = js_gt netProfitUsd (minProfitThresholdUsd config)
      in ([ProfitReport grossProfitUsd netProfitUsd profitable], profitable))"

text \<open>\<^verbatim>\<open>calculateStartDrawProfit\<close> of \<^verbatim>\<open>part_000\<close>: the reward is \<^verbatim>\<open>startDrawFeeUsd\<close>.\<close>

definition calculateStartDrawProfit_p0 ::
  "DrawAuctionConfig \<Rightarrow> DrawAuctionContext \<Rightarrow> number \<Rightarrow> event list \<times> bool" where
  "calculateStartDrawProfit_p0 config context gasCostUsd =
     (let grossProfitUsd = startDrawFeeUsd context;
          netProfitUsd = js_sub (js_sub grossProfitUsd gasCostUsd) (rngFeeEstimateUsd context);
          profitable = js_gt netProfitUsd (minProfitThresholdUsd config)
      in ([ProfitReport grossProfitUsd netProfitUsd profitable], profitable))"

text \<open>
  \<^verbatim>\<open>calculateFinishDrawProfit\<close> (\<^verbatim>\<open>drawAuction.ts\<close>) and \<^verbatim>\<open>calculateAwardDrawProfit\<close>
  (\<^verbatim>\<open>part_000\<close>) return the net profit and the flag.
\<close>

definition calculateFinishDrawProfit ::
  "DrawAuctionConfig \<Rightarrow> number \<Rightarrow> number \<Rightarrow> event list \<times> (number \<times> bool)" where
  "calculateFinishDrawProfit config rewardUsd gasCostUsd =
     (let grossProfitUsd = rewardUsd;
          netProfitUsd = js_sub grossProfitUsd gasCostUsd;
          profitable = js_gt netProfitUsd (minProfitThresholdUsd config)
      in ([ProfitReport grossProfitUsd netProfitUsd profitable], (netProfitUsd, profitable)))"

definition calculateAwardDrawProfit ::
  "DrawAuctionConfig \<Rightarrow> number \<Rightarrow> number \<Rightarrow> event list \<times> (number \<times> bool)" where
  "calculateAwardDrawProfit config rewardUsd gasCostUsd =
     (let grossProfitUsd = rewardUsd;
          netProfitUsd = js_sub grossProfitUsd gasCostUsd;
          profitable = js_gt netProfitUsd (minProfitThresholdUsd config)
      in ([ProfitReport grossProfitUsd netProfitUsd profitable], (netProfitUsd, profitable)))"

text \<open>
  \<^verbatim>\<open>checkForceAwardDraw\<close> (\<^verbatim>\<open>part_000\<close>): the recipient check is commented out in the
  source.
\<close>

definition checkForceAwardDraw ::
  "DrawAuctionConfig \<Rightarrow> DrawAuctionContext \<Rightarrow> number \<Rightarrow> bool" where
  "checkForceAwardDraw config context netProfitUsd =
     (let lossOkay = js_gt netProfitUsd MAX_FORCE_RELAY_LOSS_THRESHOLD_USD
      in auctionClosesSoon context \<and> lossOkay)"

section \<open>Transaction parameters\<close>

definition buildRngBlockhashStartDrawTxParams ::
  "DrawAuctionConfig \<Rightarrow> DrawAuctionContracts \<Rightarrow> obj" where
  "buildRngBlockhashStartDrawTxParams config dac =
     [(''drawManagerAddress'', Str (drawManagerContract dac)),
      (''rewardRecipient'', Str (rewardRecipient config))]"

definition buildRngWitnetStartDrawTxParams ::
  "DrawAuctionConfig \<Rightarrow> DrawAuctionContext \<Rightarrow> DrawAuctionContracts \<Rightarrow> obj" where
  "buildRngWitnetStartDrawTxParams config context dac =
     [(''rngPaymentAmount'', Big (rngFeeEstimate context)),
      (''drawManagerAddress'', Str (drawManagerContract dac)),
      (''rewardRecipient'', Str (rewardRecipient config)),
      (''value'', Big (rngFeeEstimate context))]"

definition buildFinishDrawTxParams :: "DrawAuctionConfig \<Rightarrow> obj" where
  "buildFinishDrawTxParams config = [(''rewardRecipient'', Str (rewardRecipient config))]"

text \<open>\<^verbatim>\<open>buildStartDrawTxParams\<close> of \<^verbatim>\<open>part_000\<close>: the value is \<^verbatim>\<open>rngFeeEstimate.mul(2)\<close>.\<close>

definition buildStartDrawTxParams ::
  "DrawAuctionConfig \<Rightarrow> DrawAuctionContext \<Rightarrow> DrawAuctionContracts \<Rightarrow> obj" where
  "buildStartDrawTxParams config context dac =
     [(''drawManagerAddress'', Str (drawManagerContract dac)),
      (''rewardRecipient'', Str (rewardRecipient config)),
      (''value'', Big (rngFeeEstimate context * 2))]"

definition buildAwardDrawTxParams :: "DrawAuctionConfig \<Rightarrow> obj" where
  "buildAwardDrawTxParams config = [(''rewardRecipient'', Str (rewardRecipient config))]"

subsection \<open>Splitting off the value\<close>

text \<open>
  The transform functions copy their argument with the spread operator and delete a
  property of the copy. Objects are references in JavaScript, so the functions are embedded
  over a store of objects: an address is an index of the store, and the spread allocates
  the next free address.
\<close>

type_synonym heap = "obj list"

definition js_spread :: "heap \<Rightarrow> nat \<Rightarrow> heap \<times> nat" where
  "js_spread h a = (h @ [h ! a], length h)"

text \<open>\<^verbatim>\<open>transformRngWitnetStartDrawTxParams\<close> of \<^verbatim>\<open>drawAuction.ts\<close>.\<close>

definition transformRngWitnetStartDrawTxParams_heap ::
  "heap \<Rightarrow> nat \<Rightarrow> (heap \<times> jsval option \<times> nat) option" where
  "transformRngWitnetStartDrawTxParams_heap h txParams =
     (if txParams < length h then
        (let (h1, transformedTxParams) = js_spread h txParams;
             value = js_get (h1 ! transformedTxParams) ''value'';
             h2 = h1[transformedTxParams := js_delete ''value'' (h1 ! transformedTxParams)]
         in Some (h2, value, transformedTxParams))
      else None)"

text \<open>\<^verbatim>\<open>transformStartDrawTxParams\<close> of \<^verbatim>\<open>part_000\<close>.\<close>

definition transformStartDrawTxParams_heap ::
  "heap \<Rightarrow> nat \<Rightarrow> (heap \<times> jsval option \<times> nat) option" where
  "transformStartDrawTxParams_heap h txParams =
     (if txParams < length h then
        (let (h1, transformedTxParams) = js_spread h txParams;
             value = js_get (h1 ! transformedTxParams) ''value'';
             h2 = h1[transformedTxParams := js_delete ''value'' (h1 ! transformedTxParams)]
         in Some (h2, value, transformedTxParams))
      else None)"

text \<open>
  The callers build the parameter object, transform it and read the two results at once;
  for them the functions are run in a store that holds the argument alone.
\<close>

definition transformRngWitnetStartDrawTxParams :: "obj \<Rightarrow> jsval option \<times> obj" where
  "transformRngWitnetStartDrawTxParams txParams =
     (case transformRngWitnetStartDrawTxParams_heap [txParams] 0 of
        Some (h, value, transformedTxParams) \<Rightarrow> (value, h ! transformedTxParams)
      | None \<Rightarrow> (None, []))"

definition transformStartDrawTxParams :: "obj \<Rightarrow> jsval option \<times> obj" where
  "transformStartDrawTxParams txParams =
     (case transformStartDrawTxParams_heap [txParams] 0 of
        Some (h, value, transformedTxParams) \<Rightarrow> (value, h ! transformedTxParams)
      | None \<Rightarrow> (None, []))"

section \<open>Calls to the collaborators\<close>

definition io_return :: "'a \<Rightarrow> 'a io" where
  "io_return x = ([], Inr x)"

definition io_lift :: "event list \<times> 'a \<Rightarrow> 'a io" where
  "io_lift m = (fst m, Inr (snd m))"

text \<open>Reading a property of a value that may be \<^verbatim>\<open>undefined\<close>.\<close>

definition js_deref :: "'a option \<Rightarrow> 'a io" where
  "js_deref v = (case v of None \<Rightarrow> io_throw TypeError | Some x \<Rightarrow> io_return x)"

definition populateTransaction ::
  "address option \<Rightarrow> string \<Rightarrow> jsval list \<Rightarrow> jsval option \<Rightarrow> call io" where
  "populateTransaction contract f xs v =
     io_bind (js_deref contract) (\<lambda>a.
       io_return \<lparr>target = a, fname = f, args = xs, callValue = v\<rparr>)"

text \<open>
  \<^verbatim>\<open>contract.estimateGas.f(...)\<close> inside \<^verbatim>\<open>try { } catch (e) { console.log(e) }\<close>: the
  result stays \<^verbatim>\<open>undefined\<close> when the contract is undefined or the estimate rejects.
\<close>

definition try_estimateGas ::
  "Collaborators \<Rightarrow> address option \<Rightarrow> string \<Rightarrow> jsval list \<Rightarrow> jsval option
     \<Rightarrow> event list \<times> nat option" where
  "try_estimateGas env contract f xs v =
     (case contract of
        None \<Rightarrow> ([], None)
      | Some a \<Rightarrow>
          (let c = \<lparr>target = a, fname = f, args = xs, callValue = v\<rparr>
           in ([EstimateGas c], estimateGas env c)))"

definition await_getGasPrice :: "Collaborators \<Rightarrow> nat io" where
  "await_getGasPrice env = ([GetGasPrice], Inr (getGasPrice env))"

definition await_sendPopulatedTx ::
  "Collaborators \<Rightarrow> call \<Rightarrow> nat \<Rightarrow> nat \<Rightarrow> bool \<Rightarrow> obj \<Rightarrow> string io" where
  "await_sendPopulatedTx env populatedTx gasLimit gasPrice flashbots txParams =
     ([SendPopulatedTx populatedTx gasLimit gasPrice flashbots txParams],
      (case sendPopulatedTx env populatedTx gasLimit gasPrice flashbots txParams of
         None \<Rightarrow> Inl SubmissionFailed
       | Some h \<Rightarrow> Inr h))"

section \<open>Gas estimates and gas cost\<close>

definition getRngWitnetStartDrawEstimatedGasLimit ::
  "Collaborators \<Rightarrow> address option \<Rightarrow> obj \<Rightarrow> event list \<times> nat option" where
  "getRngWitnetStartDrawEstimatedGasLimit env contract rngWitnetStartDrawTxParams =
     (let (value, transformedTxParams) =
            transformRngWitnetStartDrawTxParams rngWitnetStartDrawTxParams
      in try_estimateGas env contract ''startDraw'' (Object_values transformedTxParams) value)"

definition getRngBlockhashStartDrawEstimatedGasLimit ::
  "Collaborators \<Rightarrow> address option \<Rightarrow> obj \<Rightarrow> event list \<times> nat option" where
  "getRngBlockhashStartDrawEstimatedGasLimit env contract rngBlockhashStartDrawTxParams =
     try_estimateGas env contract ''startDraw'' (Object_values rngBlockhashStartDrawTxParams) None"

text \<open>
  \<^verbatim>\<open>getFinishDrawEstimatedGasLimit\<close> of \<^verbatim>\<open>drawAuction.ts\<close>: the function whose gas it
  estimates is \<^verbatim>\<open>startDraw\<close>, as the source has it.
\<close>

definition getFinishDrawEstimatedGasLimit ::
  "Collaborators \<Rightarrow> address option \<Rightarrow> obj \<Rightarrow> event list \<times> nat option" where
  "getFinishDrawEstimatedGasLimit env contract finishDrawTxParams =
     try_estimateGas env contract ''startDraw'' (Object_values finishDrawTxParams) None"

text \<open>\<^verbatim>\<open>getStartDrawEstimatedGasLimit\<close> of \<^verbatim>\<open>part_000\<close>.\<close>

definition getStartDrawEstimatedGasLimit_p0 ::
  "Collaborators \<Rightarrow> address option \<Rightarrow> obj \<Rightarrow> event list \<times> nat option" where
  "getStartDrawEstimatedGasLimit_p0 env contract startDrawTxParams =
     (let (value, transformedTxParams) = transformStartDrawTxParams startDrawTxParams
      in try_estimateGas env contract ''startDraw'' (Object_values transformedTxParams) value)"

text \<open>\<^verbatim>\<open>getGasCostUsd\<close> is the same text in both files.\<close>

definition getGasCostUsd ::
  "Collaborators \<Rightarrow> DrawAuctionConfig \<Rightarrow> nat option \<Rightarrow> number \<Rightarrow> call
     \<Rightarrow> event list \<times> number" where
  "getGasCostUsd env config estimatedGasLimit nativeTokenRate populatedTx =
     (case estimatedGasLimit of
        None \<Rightarrow> ([Console ''Estimated gas limit is 0 ...''], Num 0)
      | Some g \<Rightarrow>
          if g = 0 then ([Console ''Estimated gas limit is 0 ...''], Num 0)
          else ([GetGasPrice, GetFeesUsd (chainId config) g nativeTokenRate (txData populatedTx)],
                getFeesUsd env (chainId config) g nativeTokenRate (txData populatedTx)))"

text \<open>
  \<^verbatim>\<open>getStartDrawGasCostUsd\<close> of \<^verbatim>\<open>drawAuction.ts\<close>. The file calls
  \<^verbatim>\<open>getStartDrawEstimatedGasLimit(contract, txParams)\<close> and declares no function of that
  name (it declares \<^verbatim>\<open>getRngWitnetStartDrawEstimatedGasLimit\<close> and
  \<^verbatim>\<open>getRngBlockhashStartDrawEstimatedGasLimit\<close>); the function is the parameter
  \<open>estimator\<close>: like the declared estimators it takes the contract and the parameters,
  may call collaborators, and returns the estimate or \<^verbatim>\<open>undefined\<close>. Run as the file stands,
  the call of the undeclared name throws a \<^verbatim>\<open>ReferenceError\<close>; what is stated about the
  start-draw path of this file is stated for a given estimator.
\<close>

definition getStartDrawGasCostUsd ::
  "(address option \<Rightarrow> obj \<Rightarrow> event list \<times> nat option) \<Rightarrow> Collaborators \<Rightarrow> DrawAuctionConfig
     \<Rightarrow> DrawAuctionContext \<Rightarrow> DrawAuctionContracts \<Rightarrow> number io" where
  "getStartDrawGasCostUsd estimator env config context dac =
     io_bind
       (case rngWitnetContract dac of
          Some w \<Rightarrow>
            (let txParams = buildRngWitnetStartDrawTxParams config context dac in
             io_bind (io_lift (estimator (Some w) txParams)) (\<lambda>estimatedGasLimit.
               let (value, transformedTxParams) = transformRngWitnetStartDrawTxParams txParams in
               io_bind (populateTransaction (Some w) ''startDraw''
                          (Object_values transformedTxParams) value) (\<lambda>populatedTx.
                 io_return (estimatedGasLimit, populatedTx))))
        | None \<Rightarrow>
            (let txParams = buildRngBlockhashStartDrawTxParams config dac in
             io_bind (io_lift (estimator (rngBlockhashContract dac) txParams)) (\<lambda>estimatedGasLimit.
               io_bind (populateTransaction (rngBlockhashContract dac) ''startDraw''
                          (Object_values txParams) None) (\<lambda>populatedTx.
                 io_return (estimatedGasLimit, populatedTx)))))
       (\<lambda>(estimatedGasLimit, populatedTx).
          io_bind (js_deref estimatedGasLimit) (\<lambda>g.
            let estimatedGasLimitWithBuffer = g + DRAW_GAS_LIMIT_BUFFER in
            io_lift (getGasCostUsd env config (Some estimatedGasLimitWithBuffer)
                       (nativeTokenMarketRateUsd context) populatedTx)))"

definition getFinishDrawGasCostUsd ::
  "Collaborators \<Rightarrow> obj \<Rightarrow> address \<Rightarrow> DrawAuctionConfig \<Rightarrow> DrawAuctionContext
     \<Rightarrow> number io" where
  "getFinishDrawGasCostUsd env txParams contract config context =
     io_bind (io_lift (getFinishDrawEstimatedGasLimit env (Some contract) txParams))
       (\<lambda>estimatedGasLimit.
     io_bind (populateTransaction (Some contract) ''finishDraw'' (Object_values txParams) None)
       (\<lambda>populatedTx.
     io_bind (js_deref estimatedGasLimit) (\<lambda>g.
       let estimatedGasLimitWithBuffer = g + DRAW_GAS_LIMIT_BUFFER in
       io_lift (getGasCostUsd env config (Some estimatedGasLimitWithBuffer)
                  (nativeTokenMarketRateUsd context) populatedTx))))"

text \<open>\<^verbatim>\<open>getStartDrawGasCostUsd\<close> of \<^verbatim>\<open>part_000\<close>.\<close>

definition getStartDrawGasCostUsd_p0 ::
  "Collaborators \<Rightarrow> DrawAuctionConfig \<Rightarrow> DrawAuctionContext \<Rightarrow> DrawAuctionContracts
     \<Rightarrow> number io" where
  "getStartDrawGasCostUsd_p0 env config context dac =
     (let startDrawTxParams = buildStartDrawTxParams config context dac in
      io_bind (io_lift (getStartDrawEstimatedGasLimit_p0 env (rngWitnetContract dac)
                 startDrawTxParams)) (\<lambda>estimatedGasLimit.
        let (value, transformedTxParams) = transformStartDrawTxParams startDrawTxParams in
        io_bind (populateTransaction (rngWitnetContract dac) ''startDraw''
                   (Object_values transformedTxParams) value) (\<lambda>populatedTx.
          io_lift (getGasCostUsd env config estimatedGasLimit
                     (nativeTokenMarketRateUsd context) populatedTx))))"

text \<open>\<^verbatim>\<open>getAwardDrawGasCostUsd\<close> of \<^verbatim>\<open>part_000\<close>: the gas limit is the constant 400000.\<close>

definition getAwardDrawGasCostUsd ::
  "Collaborators \<Rightarrow> obj \<Rightarrow> address \<Rightarrow> DrawAuctionConfig \<Rightarrow> DrawAuctionContext
     \<Rightarrow> number io" where
  "getAwardDrawGasCostUsd env txParams contract config context =
     (let estimatedGasLimit = Some (400000 :: nat) in
      io_bind (populateTransaction (Some contract) ''awardDraw'' (Object_values txParams) None)
        (\<lambda>populatedTx.
          io_lift (getGasCostUsd env config estimatedGasLimit
                     (nativeTokenMarketRateUsd context) populatedTx)))"

section \<open>Dispatch\<close>

text \<open>
  \<^verbatim>\<open>sendPopulatedStartDrawTransaction\<close> of \<^verbatim>\<open>drawAuction.ts\<close>: the gas limit handed to
  \<^verbatim>\<open>sendPopulatedTx\<close> is \<^verbatim>\<open>Number(estimatedGasLimit) + 100000\<close>, after
  \<^verbatim>\<open>estimatedGasLimit.toString()\<close> has been logged.
\<close>

definition sendPopulatedStartDrawTransaction ::
  "(address option \<Rightarrow> obj \<Rightarrow> event list \<times> nat option) \<Rightarrow> Collaborators \<Rightarrow> DrawAuctionConfig
     \<Rightarrow> DrawAuctionContext \<Rightarrow> DrawAuctionContracts \<Rightarrow> unit io" where
  "sendPopulatedStartDrawTransaction estimator env config context dac =
     io_bind
       (case rngWitnetContract dac of
          Some w \<Rightarrow>
            (let txParams = buildRngWitnetStartDrawTxParams config context dac in
             io_bind (io_lift (estimator (Some w) txParams)) (\<lambda>estimatedGasLimit.
               let (value, transformedTxParams) = transformRngWitnetStartDrawTxParams txParams in
               io_bind (populateTransaction (Some w) ''startDraw''
                          (Object_values transformedTxParams) value) (\<lambda>populatedTx.
                 io_return (txParams, estimatedGasLimit, populatedTx))))
        | None \<Rightarrow>
            (let txParams = buildRngBlockhashStartDrawTxParams config dac in
             io_bind (io_lift (estimator (rngBlockhashContract dac) txParams)) (\<lambda>estimatedGasLimit.
               io_bind (populateTransaction (rngBlockhashContract dac) ''startDraw''
                          (Object_values txParams) None) (\<lambda>populatedTx.
                 io_return (txParams, estimatedGasLimit, populatedTx)))))
       (\<lambda>(txParams, estimatedGasLimit, populatedTx).
          io_bind (js_deref estimatedGasLimit) (\<lambda>g.
            let estimatedGasLimitWithBufferAsNumber = g + 100000 in
            io_bind (await_getGasPrice env) (\<lambda>gasPrice.
              io_bind (await_sendPopulatedTx env populatedTx estimatedGasLimitWithBufferAsNumber
                         gasPrice (useFlashbots config) txParams) (\<lambda>tx.
                io_log [TransactionSent tx]))))"

definition sendPopulatedFinishDrawTransaction ::
  "Collaborators \<Rightarrow> DrawAuctionConfig \<Rightarrow> obj \<Rightarrow> address \<Rightarrow> unit io" where
  "sendPopulatedFinishDrawTransaction env config txParams contract =
     io_bind (await_getGasPrice env) (\<lambda>gasPrice.
     io_bind (io_lift (getFinishDrawEstimatedGasLimit env (Some contract) txParams))
       (\<lambda>estimatedGasLimit.
     io_bind (js_deref estimatedGasLimit) (\<lambda>g.
       let estimatedGasLimitWithBufferAsNumber = g + DRAW_GAS_LIMIT_BUFFER in
       io_bind (populateTransaction (Some contract) ''finishDraw'' (Object_values txParams) None)
         (\<lambda>populatedTx.
       io_bind (await_sendPopulatedTx env populatedTx estimatedGasLimitWithBufferAsNumber
                  gasPrice False txParams) (\<lambda>tx.
         io_log [TransactionSent tx])))))"

text \<open>The two dispatchers of \<^verbatim>\<open>part_000\<close>: the gas limits are the constants 850000 and 800000.\<close>

definition sendPopulatedStartDrawTransaction_p0 ::
  "Collaborators \<Rightarrow> DrawAuctionConfig \<Rightarrow> DrawAuctionContext \<Rightarrow> DrawAuctionContracts \<Rightarrow> unit io" where
  "sendPopulatedStartDrawTransaction_p0 env config context dac =
     (let contract = rngWitnetContract dac;
          txParams = buildStartDrawTxParams config context dac;
          (value, transformedTxParams) = transformStartDrawTxParams txParams in
      io_bind (populateTransaction contract ''startDraw'' (Object_values transformedTxParams) value)
        (\<lambda>populatedTx.
      io_bind (await_getGasPrice env) (\<lambda>gasPrice.
        let gasLimit = 850000 in
        io_bind (await_sendPopulatedTx env populatedTx gasLimit gasPrice (useFlashbots config)
                   txParams) (\<lambda>tx.
          io_log [TransactionSent tx]))))"

definition sendPopulatedAwardDrawTransaction ::
  "Collaborators \<Rightarrow> DrawAuctionConfig \<Rightarrow> obj \<Rightarrow> address \<Rightarrow> unit io" where
  "sendPopulatedAwardDrawTransaction env config txParams contract =
     io_bind (await_getGasPrice env) (\<lambda>gasPrice.
     io_bind (populateTransaction (Some contract) ''awardDraw'' (Object_values txParams) None)
       (\<lambda>populatedTx.
       let gasLimit = 800000 in
       io_bind (await_sendPopulatedTx env populatedTx gasLimit gasPrice False txParams) (\<lambda>tx.
         io_log [TransactionSent tx])))"

section \<open>The decision cycle\<close>

definition gasCostIsZero :: string where
  "gasCostIsZero = ''Gas cost is 0. Unable to determine profitability. Exiting ...''"

definition notProfitable :: string where
  "notProfitable = ''Completing current auction currently not profitable. Try again soon ...''"

definition noAuction :: string where
  "noAuction = ''Currently no draw auctions to start or finish. Exiting ...''"

definition noAuction_p0 :: string where
  "noAuction_p0 = ''Currently no Rng or RngRelay auctions to complete. Exiting ...''"

definition checkStartDraw ::
  "(address option \<Rightarrow> obj \<Rightarrow> event list \<times> nat option) \<Rightarrow> Collaborators \<Rightarrow> DrawAuctionConfig
     \<Rightarrow> DrawAuctionContext \<Rightarrow> DrawAuctionContracts \<Rightarrow> unit io" where
  "checkStartDraw estimator env config context dac =
     io_bind (getStartDrawGasCostUsd estimator env config context dac) (\<lambda>gasCostUsd.
       if gasCostUsd = Num 0 then io_log [Console gasCostIsZero]
       else
         io_bind (io_lift (calculateStartDrawProfit config context gasCostUsd)) (\<lambda>profitable.
           if profitable then sendPopulatedStartDrawTransaction estimator env config context dac
           else io_log [Console notProfitable]))"

definition checkFinishDraw ::
  "Collaborators \<Rightarrow> DrawAuctionConfig \<Rightarrow> DrawAuctionContext \<Rightarrow> DrawAuctionContracts \<Rightarrow> unit io" where
  "checkFinishDraw env config context dac =
     (let contract = drawManagerContract dac;
          txParams = buildFinishDrawTxParams config in
      io_bind (getFinishDrawGasCostUsd env txParams contract config context) (\<lambda>gasCostUsd.
        if gasCostUsd = Num 0 then io_log [Console gasCostIsZero]
        else
          io_bind (io_lift (calculateFinishDrawProfit config (finishDrawRewardUsd context)
                     gasCostUsd)) (\<lambda>(netProfitUsd, profitable).
            if profitable then sendPopulatedFinishDrawTransaction env config txParams contract
            else io_log [Console notProfitable])))"

definition checkStartDraw_p0 ::
  "Collaborators \<Rightarrow> DrawAuctionConfig \<Rightarrow> DrawAuctionContext \<Rightarrow> DrawAuctionContracts \<Rightarrow> unit io" where
  "checkStartDraw_p0 env config context dac =
     io_bind (getStartDrawGasCostUsd_p0 env config context dac) (\<lambda>gasCostUsd.
       if gasCostUsd = Num 0 then io_log [Console gasCostIsZero]
       else
         io_bind (io_lift (calculateStartDrawProfit_p0 config context gasCostUsd)) (\<lambda>profitable.
           if profitable then sendPopulatedStartDrawTransaction_p0 env config context dac
           else io_log [Console notProfitable]))"

definition checkAwardDraw ::
  "Collaborators \<Rightarrow> DrawAuctionConfig \<Rightarrow> DrawAuctionContext \<Rightarrow> DrawAuctionContracts \<Rightarrow> unit io" where
  "checkAwardDraw env config context dac =
     (let contract = drawManagerContract dac;
          txParams = buildAwardDrawTxParams config in
      io_bind (getAwardDrawGasCostUsd env txParams contract config context) (\<lambda>gasCostUsd.
        if gasCostUsd = Num 0 then io_log [Console gasCostIsZero]
        else
          io_bind (io_lift (calculateAwardDrawProfit config (awardDrawFeeUsd context)
                     gasCostUsd)) (\<lambda>(netProfitUsd, profitable).
            let forceAwardDraw = checkForceAwardDraw config context netProfitUsd in
            io_bind (io_log [ForceReport forceAwardDraw]) (\<lambda>_.
              if profitable \<or> forceAwardDraw
              then sendPopulatedAwardDrawTransaction env config txParams contract
              else io_log [Console notProfitable]))))"

text \<open>
  \<^verbatim>\<open>printContext\<close> reports the snapshot, and runs before the auction state is looked at.
  Its lines read \<^verbatim>\<open>NETWORK_NATIVE_TOKEN_INFO[chainId].symbol\<close>,
  \<^verbatim>\<open>context.rewardToken.symbol\<close> and \<^verbatim>\<open>context.rewardToken.assetRateUsd\<close>, which throw
  when the entry or the token is undefined; \<^verbatim>\<open>drawAuction.ts\<close> formats
  \<^verbatim>\<open>context.startDrawReward\<close> and \<^verbatim>\<open>context.finishDrawReward\<close> with
  \<^verbatim>\<open>ethers.utils.formatUnits\<close>, and \<^verbatim>\<open>part_000\<close> calls \<^verbatim>\<open>toString()\<close> on
  \<^verbatim>\<open>context.startDrawFee\<close> when the draw can be started and on \<^verbatim>\<open>context.awardDrawFee\<close>
  when it can be awarded. Of the lines themselves the model keeps the one that reads the
  clock, \<^verbatim>\<open>(context.prizePoolDrawClosesAt - Math.ceil(Date.now() / 1000)) / 60\<close>, where
  \<open>now\<close> is \<^verbatim>\<open>Date.now()\<close>; \<^verbatim>\<open>part_000\<close> prints it when the draw cannot be started. The
  logging helpers of \<^verbatim>\<open>./utils\<close> are not in the source tree and are taken to return.
\<close>

definition minutesUntilClose :: "DrawAuctionContext \<Rightarrow> int \<Rightarrow> number" where
  "minutesUntilClose context now =
     js_div (js_sub (prizePoolDrawClosesAt context)
               (js_ceil (js_div (Num (of_int now)) (Num 1000))))
       (Num 60)"

definition formatUnits :: "int option \<Rightarrow> nat \<Rightarrow> unit io" where
  "formatUnits v d = (case v of None \<Rightarrow> io_throw EthersError | Some x \<Rightarrow> io_return ())"

definition printContext ::
  "(nat \<Rightarrow> NativeTokenInfo option) \<Rightarrow> nat \<Rightarrow> DrawAuctionContext \<Rightarrow> int \<Rightarrow> unit io" where
  "printContext NETWORK_NATIVE_TOKEN_INFO chain context now =
     io_bind (js_deref (NETWORK_NATIVE_TOKEN_INFO chain)) (\<lambda>native.
     io_bind (js_deref (rewardToken context)) (\<lambda>token.
     io_bind (formatUnits (startDrawReward context) (decimals token)) (\<lambda>_.
     io_bind (io_log [PrintContext (minutesUntilClose context now)]) (\<lambda>_.
       formatUnits (finishDrawReward context) (decimals token)))))"

definition printContext_p0 ::
  "(nat \<Rightarrow> NativeTokenInfo option) \<Rightarrow> nat \<Rightarrow> DrawAuctionContext \<Rightarrow> int \<Rightarrow> unit io" where
  "printContext_p0 NETWORK_NATIVE_TOKEN_INFO chain context now =
     io_bind (js_deref (NETWORK_NATIVE_TOKEN_INFO chain)) (\<lambda>native.
     io_bind (js_deref (rewardToken context)) (\<lambda>token.
     io_bind
       (if canStartDraw context
        then io_bind (js_deref (startDrawFee context)) (\<lambda>fee. io_return ())
        else io_log [PrintContext (minutesUntilClose context now)]) (\<lambda>_.
       if canAwardDraw context
       then io_bind (js_deref (awardDrawFee context)) (\<lambda>fee. io_return ())
       else io_return ())))"

text \<open>
  \<^verbatim>\<open>runDrawAuction\<close>. The contracts and the snapshot come from \<^verbatim>\<open>getContract\<close> and
  \<^verbatim>\<open>getDrawAuctionContextMulticall\<close>, which are not in the source tree: the cycle starts
  from their results. The functions it calls after \<^verbatim>\<open>printContext\<close> read the same table
  entry for their log lines, which by then is known to be there.
\<close>

definition runDrawAuction ::
  "(nat \<Rightarrow> NativeTokenInfo option) \<Rightarrow> (address option \<Rightarrow> obj \<Rightarrow> event list \<times> nat option)
     \<Rightarrow> Collaborators \<Rightarrow> DrawAuctionConfig \<Rightarrow> DrawAuctionContext \<Rightarrow> DrawAuctionContracts \<Rightarrow> int
     \<Rightarrow> unit io" where
  "runDrawAuction NETWORK_NATIVE_TOKEN_INFO estimator env config context dac now =
     io_bind (printContext NETWORK_NATIVE_TOKEN_INFO (chainId config) context now) (\<lambda>_.
       case drawAuctionState context of
         None \<Rightarrow> io_log [Console noAuction]
       | Some st \<Rightarrow>
           if st = Start then
             io_bind (io_log [Processing Start]) (\<lambda>_.
               checkStartDraw estimator env config context dac)
           else if st = Finish then
             io_bind (io_log [Processing Finish]) (\<lambda>_.
               checkFinishDraw env config context dac)
           else io_return ())"

definition runDrawAuction_p0 ::
  "(nat \<Rightarrow> NativeTokenInfo option) \<Rightarrow> Collaborators \<Rightarrow> DrawAuctionConfig \<Rightarrow> DrawAuctionContext
     \<Rightarrow> DrawAuctionContracts \<Rightarrow> int \<Rightarrow> unit io" where
  "runDrawAuction_p0 NETWORK_NATIVE_TOKEN_INFO env config context dac now =
     io_bind (printContext_p0 NETWORK_NATIVE_TOKEN_INFO (chainId config) context now) (\<lambda>_.
       case drawAuctionState context of
         None \<Rightarrow> io_log [Console noAuction_p0]
       | Some st \<Rightarrow>
           if st = Start then
             io_bind (io_log [Processing Start]) (\<lambda>_.
               checkStartDraw_p0 env config context dac)
           else if st = Award then
             io_bind (io_log [Processing Award]) (\<lambda>_.
               checkAwardDraw env config context dac)
           else io_return ())"

section \<open>Reading a trace\<close>

text \<open>
  The gas estimates a trace requests, the gas units it hands to the fee conversion, the
  transactions it hands to the submission collaborator with their gas limits; the phase
  it processes, the profit it reports (gross, net, profitable) and the forced flag; and
  what is left of it when the line that reads the clock and the hash of the submitted
  transaction are dropped.
\<close>

definition estimatesRequested :: "event list \<Rightarrow> call list" where
  "estimatesRequested tr =
     concat (map (\<lambda>e. case e of EstimateGas c \<Rightarrow> [c] | _ \<Rightarrow> []) tr)"

definition gasUnitsConverted :: "event list \<Rightarrow> nat list" where
  "gasUnitsConverted tr =
     concat (map (\<lambda>e. case e of GetFeesUsd ch g r d \<Rightarrow> [g] | _ \<Rightarrow> []) tr)"

definition transactionsSent :: "event list \<Rightarrow> (call \<times> nat) list" where
  "transactionsSent tr =
     concat (map (\<lambda>e. case e of SendPopulatedTx c gl gp fb tp \<Rightarrow> [(c, gl)] | _ \<Rightarrow> []) tr)"

definition classification :: "event list \<Rightarrow> DrawAuctionState list" where
  "classification tr =
     concat (map (\<lambda>e. case e of Processing st \<Rightarrow> [st] | _ \<Rightarrow> []) tr)"

definition profitReports :: "event list \<Rightarrow> (number \<times> number \<times> bool) list" where
  "profitReports tr =
     concat (map (\<lambda>e. case e of ProfitReport gross net p \<Rightarrow> [(gross, net, p)] | _ \<Rightarrow> []) tr)"

definition forceReports :: "event list \<Rightarrow> bool list" where
  "forceReports tr =
     concat (map (\<lambda>e. case e of ForceReport f \<Rightarrow> [f] | _ \<Rightarrow> []) tr)"

definition decisionTrail :: "event list \<Rightarrow> event list" where
  "decisionTrail tr =
     concat (map (\<lambda>e. case e of PrintContext m \<Rightarrow> [] | TransactionSent h \<Rightarrow> []
                      | _ \<Rightarrow> [e]) tr)"

section \<open>A sample cycle\<close>

text \<open>
  Concrete inputs for evaluating the cycle: a configuration with a threshold of 1 USD, a
  Witnet deployment, a table with an entry for chain 10, a snapshot in a given state with
  given rewards in USD, and collaborators that answer every estimate with \<open>est\<close>, price
  \<open>d\<close> gas units at 1 USD, and accept every transaction. The USD amounts used with them
  are doubles (integers and halves).
\<close>

definition exTokenInfo :: "nat \<Rightarrow> NativeTokenInfo option" where
  "exTokenInfo ch =
     (if ch = 10 then Some \<lparr>nativeSymbol = ''ETH'', nativeDecimals = 18\<rparr> else None)"

definition exConfig :: DrawAuctionConfig where
  "exConfig = \<lparr>chainId = 10, rewardRecipient = ''0xRecipient'', useFlashbots = False,
     minProfitThresholdUsd = Num 1\<rparr>"

definition exContracts :: DrawAuctionContracts where
  "exContracts = \<lparr>prizePoolContract = ''0xPrizePool'', drawManagerContract = ''0xDrawManager'',
     rngWitnetContract = Some ''0xRngWitnet'', rngBlockhashContract = None\<rparr>"

definition exContext :: "DrawAuctionState option \<Rightarrow> rat \<Rightarrow> rat \<Rightarrow> bool \<Rightarrow> DrawAuctionContext" where
  "exContext st startUsd finishUsd soon =
     \<lparr>drawAuctionState = st, nativeTokenMarketRateUsd = Num 2000,
      rewardToken = Some \<lparr>symbol = ''POOL'', decimals = 18, assetRateUsd = Num 1\<rparr>,
      rngFeeEstimate = 1000, rngFeeEstimateUsd = Num 2,
      canStartDraw = (st = Some Start), canAwardDraw = (st = Some Award),
      prizePoolDrawClosesAt = Num 6000,
      startDrawReward = Some 12, startDrawRewardUsd = Num startUsd,
      finishDrawReward = Some 1, finishDrawRewardUsd = Num finishUsd,
      startDrawFee = Some 12, startDrawFeeUsd = Num startUsd,
      awardDrawFee = Some 1, awardDrawFeeUsd = Num finishUsd,
      auctionClosesSoon = soon\<rparr>"

definition exEnv :: "nat option \<Rightarrow> nat \<Rightarrow> Collaborators" where
  "exEnv est d =
     \<lparr>estimateGas = (\<lambda>c. est), getGasPrice = 7,
      getFeesUsd = (\<lambda>ch g r dat. Num (of_nat g / of_nat d)),
      sendPopulatedTx = (\<lambda>c gl gp fb tp. Some ''0xhash'')\<rparr>"

section \<open>Properties\<close>

lemmas io_defs =
  io_bind_def io_throw_def io_log_def io_return_def io_lift_def js_deref_def
  populateTransaction_def try_estimateGas_def await_getGasPrice_def await_sendPopulatedTx_def

lemmas trace_defs =
  estimatesRequested_def gasUnitsConverted_def transactionsSent_def decisionTrail_def
  classification_def profitReports_def forceReports_def

lemmas params_defs =
  buildRngBlockhashStartDrawTxParams_def buildRngWitnetStartDrawTxParams_def
  buildFinishDrawTxParams_def buildStartDrawTxParams_def buildAwardDrawTxParams_def
  Object_values_def js_get_def js_delete_def

lemmas ex_defs = exConfig_def exContracts_def exContext_def exEnv_def exTokenInfo_def

lemma transformRngWitnetStartDrawTxParams_eq:
  "transformRngWitnetStartDrawTxParams txParams =
     (map_of txParams ''value'', filter (\<lambda>p. fst p \<noteq> ''value'') txParams)"
  by (simp add: transformRngWitnetStartDrawTxParams_def
      transformRngWitnetStartDrawTxParams_heap_def js_spread_def js_get_def js_delete_def)

lemma transformStartDrawTxParams_eq:
  "transformStartDrawTxParams txParams =
     (map_of txParams ''value'', filter (\<lambda>p. fst p \<noteq> ''value'') txParams)"
  by (simp add: transformStartDrawTxParams_def
      transformStartDrawTxParams_heap_def js_spread_def js_get_def js_delete_def)

lemmas cycle_defs =
  getGasCostUsd_def getStartDrawGasCostUsd_def getFinishDrawGasCostUsd_def
  getStartDrawGasCostUsd_p0_def getAwardDrawGasCostUsd_def
  getRngWitnetStartDrawEstimatedGasLimit_def getRngBlockhashStartDrawEstimatedGasLimit_def
  getFinishDrawEstimatedGasLimit_def getStartDrawEstimatedGasLimit_p0_def
  sendPopulatedStartDrawTransaction_def sendPopulatedFinishDrawTransaction_def
  sendPopulatedStartDrawTransaction_p0_def sendPopulatedAwardDrawTransaction_def
  checkStartDraw_def checkFinishDraw_def checkStartDraw_p0_def checkAwardDraw_def
  calculateStartDrawProfit_def calculateStartDrawProfit_p0_def
  calculateFinishDrawProfit_def calculateAwardDrawProfit_def checkForceAwardDraw_def
  transformStartDrawTxParams_eq transformRngWitnetStartDrawTxParams_eq
  DRAW_GAS_LIMIT_BUFFER_def MAX_FORCE_RELAY_LOSS_THRESHOLD_USD_def txData_def

subsection \<open>Numbers\<close>

text \<open>
  No number is greater than itself. The roundings below are the ones the sample cycles
  meet; the last three are subtractions of decimal literals whose exact result is not a
  double or lies on the other side of a threshold: \<^verbatim>\<open>4.04 - 1.26 - 1.78\<close> is
  \<^verbatim>\<open>1.0000000000000002\<close>, \<^verbatim>\<open>1.1600000000000004 - 6.16\<close> is \<^verbatim>\<open>-5\<close> and \<^verbatim>\<open>0.68 - 0.18\<close> is
  \<^verbatim>\<open>0.5\<close>.
\<close>

lemma js_gt_irrefl: "\<not> js_gt x x"
  by (cases x) simp_all

lemma sample_roundings:
  "round_double 0 = Num 0"
  "round_double 1 = Num 1"
  "round_double 3 = Num 3"
  "round_double 7 = Num 7"
  "round_double 8 = Num 8"
  "round_double 9 = Num 9"
  "round_double 10 = Num 10"
  "round_double (- 3) = Num (- 3)"
  "round_double (- 7) = Num (- 7)"
  "round_double (23 / 2) = Num (23 / 2)"
  "round_double (19 / 2) = Num (19 / 2)"
  "round_double (15 / 2) = Num (15 / 2)"
  "round_double 60 = Num 60"
  "round_double 99 = Num 99"
  "round_double 100 = Num 100"
  "round_double 5940 = Num 5940"
  "round_double 6000 = Num 6000"
  by code_simp+

lemma decimal_roundings:
  "js_sub (js_sub (round_double (404 / 100)) (round_double (126 / 100)))
     (round_double (178 / 100)) = Num (4503599627370497 / 4503599627370496)"
  "js_sub (round_double (11600000000000004 / 10000000000000000)) (round_double (616 / 100))
     = Num (- 5)"
  "js_sub (round_double (68 / 100)) (round_double (18 / 100)) = Num (1 / 2)"
  by code_simp+

lemma decimal_roundings_lowest_terms:
  "round_double (2900000000000001 / 2500000000000000)
     = Num (5224175567749777 / 4503599627370496)"
  "round_double (154 / 25) = Num (1733885856537641 / 281474976710656)"
  "round_double (- (22517998136852479 / 4503599627370496)) = Num (- 5)"
  by code_simp+

lemma fst_io_bind:
  "fst (io_bind m f) = fst m @ (case snd m of Inl e \<Rightarrow> [] | Inr x \<Rightarrow> fst (f x))"
  by (cases m; cases "snd m") (simp_all add: io_bind_def split: prod.splits)

lemma snd_io_bind:
  "snd (io_bind m f) = (case snd m of Inl e \<Rightarrow> Inl e | Inr x \<Rightarrow> snd (f x))"
  by (cases m; cases "snd m") (simp_all add: io_bind_def split: prod.splits)

lemma decisionTrail_append: "decisionTrail (a @ b) = decisionTrail a @ decisionTrail b"
  by (simp add: decisionTrail_def)

lemma projections_of_decisionTrail:
  "classification (decisionTrail tr) = classification tr"
  "profitReports (decisionTrail tr) = profitReports tr"
  "forceReports (decisionTrail tr) = forceReports tr"
  "estimatesRequested (decisionTrail tr) = estimatesRequested tr"
  "gasUnitsConverted (decisionTrail tr) = gasUnitsConverted tr"
  "transactionsSent (decisionTrail tr) = transactionsSent tr"
  by (induction tr; simp add: trace_defs split: event.splits)+

subsection \<open>Profit and threshold\<close>

text \<open>
  Claim C1. Every phase-one evaluation computes the net profit as the start-draw reward
  minus the gas cost minus the RNG fee estimate, every phase-two evaluation computes it as
  the reward minus the gas cost, each subtraction being the subtraction of doubles, and in
  both phases and both files the flag \<open>profitable\<close> is exactly
  \<open>net profit > minProfitThresholdUsd\<close> on the net profit so computed; a computed net
  profit equal to the threshold gives \<open>profitable = False\<close>.
\<close>

theorem profit_formulas_strict:
  "calculateStartDrawProfit config context g =
     ([ProfitReport (startDrawRewardUsd context)
         (js_sub (js_sub (startDrawRewardUsd context) g) (rngFeeEstimateUsd context))
         (js_gt (js_sub (js_sub (startDrawRewardUsd context) g) (rngFeeEstimateUsd context))
            (minProfitThresholdUsd config))],
      js_gt (js_sub (js_sub (startDrawRewardUsd context) g) (rngFeeEstimateUsd context))
        (minProfitThresholdUsd config))
   \<and> calculateStartDrawProfit_p0 config context g =
     ([ProfitReport (startDrawFeeUsd context)
         (js_sub (js_sub (startDrawFeeUsd context) g) (rngFeeEstimateUsd context))
         (js_gt (js_sub (js_sub (startDrawFeeUsd context) g) (rngFeeEstimateUsd context))
            (minProfitThresholdUsd config))],
      js_gt (js_sub (js_sub (startDrawFeeUsd context) g) (rngFeeEstimateUsd context))
        (minProfitThresholdUsd config))
   \<and> calculateFinishDrawProfit config r g =
     ([ProfitReport r (js_sub r g) (js_gt (js_sub r g) (minProfitThresholdUsd config))],
      (js_sub r g, js_gt (js_sub r g) (minProfitThresholdUsd config)))
   \<and> calculateAwardDrawProfit config r g =
     ([ProfitReport r (js_sub r g) (js_gt (js_sub r g) (minProfitThresholdUsd config))],
      (js_sub r g, js_gt (js_sub r g) (minProfitThresholdUsd config)))
   \<and> (js_sub (js_sub (startDrawRewardUsd context) g) (rngFeeEstimateUsd context)
          = minProfitThresholdUsd config
        \<longrightarrow> \<not> snd (calculateStartDrawProfit config context g))
   \<and> (js_sub (js_sub (startDrawFeeUsd context) g) (rngFeeEstimateUsd context)
          = minProfitThresholdUsd config
        \<longrightarrow> \<not> snd (calculateStartDrawProfit_p0 config context g))
   \<and> (js_sub r g = minProfitThresholdUsd config
        \<longrightarrow> \<not> snd (snd (calculateFinishDrawProfit config r g))
          \<and> \<not> snd (snd (calculateAwardDrawProfit config r g)))"
  by (simp add: calculateStartDrawProfit_def calculateStartDrawProfit_p0_def
      calculateFinishDrawProfit_def calculateAwardDrawProfit_def Let_def js_gt_irrefl)

theorem profit_formulas_strict_witness:
  "calculateStartDrawProfit exConfig (exContext (Some Start) 12 0 False) (Num 3)
     = ([ProfitReport (Num 12) (Num 7) True], True)
   \<and> js_sub (js_sub (startDrawRewardUsd (exContext (Some Start) 6 0 False)) (Num 3))
        (rngFeeEstimateUsd (exContext (Some Start) 6 0 False)) = minProfitThresholdUsd exConfig
   \<and> \<not> snd (calculateStartDrawProfit exConfig (exContext (Some Start) 6 0 False) (Num 3))
   \<and> \<not> snd (calculateStartDrawProfit_p0 exConfig (exContext (Some Start) 6 0 False) (Num 3))
   \<and> js_sub (Num 5) (Num 4) = minProfitThresholdUsd exConfig
   \<and> \<not> snd (snd (calculateFinishDrawProfit exConfig (Num 5) (Num 4)))
   \<and> \<not> snd (snd (calculateAwardDrawProfit exConfig (Num 5) (Num 4)))"
  using profit_formulas_strict [of exConfig "exContext (Some Start) 12 0 False" "Num 3" "Num 4"]
    profit_formulas_strict [of exConfig "exContext (Some Start) 6 0 False" "Num 3" "Num 4"]
    profit_formulas_strict [of exConfig "exContext (Some Start) 6 0 False" "Num 4" "Num 5"]
  by (simp add: ex_defs sample_roundings)

text \<open>
  The net profit is the rounded one: with a reward of \<^verbatim>\<open>4.04\<close>, a gas cost of \<^verbatim>\<open>1.26\<close>, a
  fee of \<^verbatim>\<open>1.78\<close> and a threshold of 1 the exact difference is the threshold, the computed
  net profit is \<^verbatim>\<open>1.0000000000000002\<close>, and the cycle is profitable. With a reward of
  \<^verbatim>\<open>0.68\<close>, a gas cost of \<^verbatim>\<open>0.18\<close> and a threshold of \<^verbatim>\<open>0.5\<close> the computed net profit is the
  threshold, and the cycle is not profitable.
\<close>

lemma profit_is_computed_in_doubles:
  "calculateStartDrawProfit exConfig
     ((exContext (Some Start) 0 0 False)
        \<lparr>startDrawRewardUsd := round_double (404 / 100),
         rngFeeEstimateUsd := round_double (178 / 100)\<rparr>)
     (round_double (126 / 100))
   = ([ProfitReport (round_double (404 / 100))
         (Num (4503599627370497 / 4503599627370496)) True], True)"
  "calculateFinishDrawProfit (exConfig\<lparr>minProfitThresholdUsd := Num (1 / 2)\<rparr>)
     (round_double (68 / 100)) (round_double (18 / 100))
   = ([ProfitReport (round_double (68 / 100)) (Num (1 / 2)) False], (Num (1 / 2), False))"
  by code_simp+

subsection \<open>No auction\<close>

text \<open>
  Claim C4, as stated, fails in both files: \<^verbatim>\<open>printContext\<close> runs before the auction state
  is looked at, and for a snapshot whose auction state is absent and whose reward token
  the reader left undefined, or for a chain without an entry in
  \<^verbatim>\<open>NETWORK_NATIVE_TOKEN_INFO\<close>, the run function ends with a \<open>TypeError\<close>.
\<close>

theorem snapshot_report_raises_before_the_state_check:
  "drawAuctionState ((exContext None 12 1 True)\<lparr>rewardToken := None\<rparr>) = None
   \<and> runDrawAuction exTokenInfo
        (getRngWitnetStartDrawEstimatedGasLimit (exEnv (Some 500000) 200000))
        (exEnv (Some 500000) 200000) exConfig
        ((exContext None 12 1 True)\<lparr>rewardToken := None\<rparr>) exContracts 0
      = ([], Inl TypeError)
   \<and> runDrawAuction_p0 exTokenInfo (exEnv (Some 500000) 200000) exConfig
        ((exContext None 12 1 True)\<lparr>rewardToken := None\<rparr>) exContracts 0
      = ([], Inl TypeError)
   \<and> drawAuctionState (exContext None 12 1 True) = None
   \<and> runDrawAuction_p0 exTokenInfo (exEnv (Some 500000) 200000) (exConfig\<lparr>chainId := 999\<rparr>)
        (exContext None 12 1 True) exContracts 0
      = ([], Inl TypeError)"
  by (simp add: runDrawAuction_def runDrawAuction_p0_def printContext_def printContext_p0_def
      formatUnits_def io_defs ex_defs)

text \<open>
  Claim C4, amended. When the snapshot's derived auction state is absent, the run function
  of either file requests no gas estimate, converts no gas cost and hands no transaction
  to the submission collaborator. It returns without an error exactly when the snapshot
  report can be printed: the chain has an entry in \<^verbatim>\<open>NETWORK_NATIVE_TOKEN_INFO\<close>, the
  snapshot has its reward token, and it has the reward amounts the report formats (in
  \<^verbatim>\<open>drawAuction.ts\<close> the start-draw and finish-draw rewards; in \<^verbatim>\<open>part_000\<close> the start-draw
  fee when the draw can be started and the award-draw fee when it can be awarded).
  Otherwise the error of the report ends the run.
\<close>

theorem no_auction_no_action:
  assumes "drawAuctionState context = None"
  shows "estimatesRequested (fst (runDrawAuction T estimator env config context dac now)) = []
         \<and> gasUnitsConverted (fst (runDrawAuction T estimator env config context dac now)) = []
         \<and> transactionsSent (fst (runDrawAuction T estimator env config context dac now)) = []
         \<and> (snd (runDrawAuction T estimator env config context dac now) = Inr ()
              \<longleftrightarrow> T (chainId config) \<noteq> None \<and> rewardToken context \<noteq> None
                  \<and> startDrawReward context \<noteq> None \<and> finishDrawReward context \<noteq> None)
         \<and> estimatesRequested (fst (runDrawAuction_p0 T env config context dac now)) = []
         \<and> gasUnitsConverted (fst (runDrawAuction_p0 T env config context dac now)) = []
         \<and> transactionsSent (fst (runDrawAuction_p0 T env config context dac now)) = []
         \<and> (snd (runDrawAuction_p0 T env config context dac now) = Inr ()
              \<longleftrightarrow> T (chainId config) \<noteq> None \<and> rewardToken context \<noteq> None
                  \<and> (canStartDraw context \<longrightarrow> startDrawFee context \<noteq> None)
                  \<and> (canAwardDraw context \<longrightarrow> awardDrawFee context \<noteq> None))"
  using assms
  by (simp add: runDrawAuction_def runDrawAuction_p0_def printContext_def printContext_p0_def
      formatUnits_def io_defs trace_defs split: option.splits)

theorem no_auction_no_action_witness:
  "drawAuctionState (exContext None 12 1 True) = None
   \<and> exTokenInfo (chainId exConfig) \<noteq> None
   \<and> rewardToken (exContext None 12 1 True) \<noteq> None
   \<and> startDrawReward (exContext None 12 1 True) \<noteq> None
   \<and> finishDrawReward (exContext None 12 1 True) \<noteq> None
   \<and> snd (runDrawAuction exTokenInfo
        (getRngWitnetStartDrawEstimatedGasLimit (exEnv (Some 500000) 200000))
        (exEnv (Some 500000) 200000) exConfig (exContext None 12 1 True) exContracts 0) = Inr ()
   \<and> transactionsSent (fst (runDrawAuction exTokenInfo
        (getRngWitnetStartDrawEstimatedGasLimit (exEnv (Some 500000) 200000))
        (exEnv (Some 500000) 200000) exConfig (exContext None 12 1 True) exContracts 0)) = []
   \<and> snd (runDrawAuction_p0 exTokenInfo (exEnv (Some 500000) 200000) exConfig
        (exContext None 12 1 True) exContracts 0) = Inr ()
   \<and> estimatesRequested (fst (runDrawAuction_p0 exTokenInfo (exEnv (Some 500000) 200000) exConfig
        (exContext None 12 1 True) exContracts 0)) = []"
proof -
  have h: "drawAuctionState (exContext None 12 1 True) = None"
    by (simp add: exContext_def)
  have v: "exTokenInfo (chainId exConfig) \<noteq> None"
    "rewardToken (exContext None 12 1 True) \<noteq> None"
    "startDrawReward (exContext None 12 1 True) \<noteq> None"
    "finishDrawReward (exContext None 12 1 True) \<noteq> None"
    "\<not> canStartDraw (exContext None 12 1 True)"
    "\<not> canAwardDraw (exContext None 12 1 True)"
    by (simp_all add: ex_defs)
  show ?thesis
    using h v no_auction_no_action [OF h, of exTokenInfo
        "getRngWitnetStartDrawEstimatedGasLimit (exEnv (Some 500000) 200000)"
        "exEnv (Some 500000) 200000" exConfig exContracts 0]
    by simp
qed

subsection \<open>Determinism of the decision\<close>

text \<open>
  The decisions of a cycle do not depend on what the submission collaborator answers, and
  the snapshot report does not depend on the clock beyond its one line.
\<close>

lemma answers_without_submission [simp]:
  "estimateGas (env\<lparr>sendPopulatedTx := s\<rparr>) = estimateGas env"
  "getGasPrice (env\<lparr>sendPopulatedTx := s\<rparr>) = getGasPrice env"
  "getFeesUsd (env\<lparr>sendPopulatedTx := s\<rparr>) = getFeesUsd env"
  by simp_all

lemma getGasCostUsd_without_submission:
  "getGasCostUsd (env\<lparr>sendPopulatedTx := s\<rparr>) config e rate populatedTx
     = getGasCostUsd env config e rate populatedTx"
  by (simp add: getGasCostUsd_def split: option.splits)

lemma gas_cost_without_submission:
  "getStartDrawGasCostUsd estimator (env\<lparr>sendPopulatedTx := s\<rparr>) config context dac
     = getStartDrawGasCostUsd estimator env config context dac"
  "getFinishDrawGasCostUsd (env\<lparr>sendPopulatedTx := s\<rparr>) txParams contract config context
     = getFinishDrawGasCostUsd env txParams contract config context"
  "getStartDrawGasCostUsd_p0 (env\<lparr>sendPopulatedTx := s\<rparr>) config context dac
     = getStartDrawGasCostUsd_p0 env config context dac"
  "getAwardDrawGasCostUsd (env\<lparr>sendPopulatedTx := s\<rparr>) txParams contract config context
     = getAwardDrawGasCostUsd env txParams contract config context"
  by (simp_all add: getStartDrawGasCostUsd_def getFinishDrawGasCostUsd_def
      getStartDrawGasCostUsd_p0_def getAwardDrawGasCostUsd_def
      getGasCostUsd_without_submission getFinishDrawEstimatedGasLimit_def
      getStartDrawEstimatedGasLimit_p0_def try_estimateGas_def Let_def
      cong: if_cong option.case_cong prod.case_cong)

lemma dispatch_without_submission:
  "decisionTrail (fst (sendPopulatedStartDrawTransaction estimator (env\<lparr>sendPopulatedTx := s\<rparr>)
       config context dac))
     = decisionTrail (fst (sendPopulatedStartDrawTransaction estimator env config context dac))"
  "decisionTrail (fst (sendPopulatedFinishDrawTransaction (env\<lparr>sendPopulatedTx := s\<rparr>) config
       txParams contract))
     = decisionTrail (fst (sendPopulatedFinishDrawTransaction env config txParams contract))"
  "decisionTrail (fst (sendPopulatedStartDrawTransaction_p0 (env\<lparr>sendPopulatedTx := s\<rparr>) config
       context dac))
     = decisionTrail (fst (sendPopulatedStartDrawTransaction_p0 env config context dac))"
  "decisionTrail (fst (sendPopulatedAwardDrawTransaction (env\<lparr>sendPopulatedTx := s\<rparr>) config
       txParams contract))
     = decisionTrail (fst (sendPopulatedAwardDrawTransaction env config txParams contract))"
  by (simp_all add: sendPopulatedStartDrawTransaction_def sendPopulatedFinishDrawTransaction_def
      sendPopulatedStartDrawTransaction_p0_def sendPopulatedAwardDrawTransaction_def
      getFinishDrawEstimatedGasLimit_def transformStartDrawTxParams_eq
      transformRngWitnetStartDrawTxParams_eq io_defs decisionTrail_def Let_def
      split: option.splits prod.splits)

lemma check_without_submission:
  "decisionTrail (fst (checkStartDraw estimator (env\<lparr>sendPopulatedTx := s\<rparr>) config context dac))
     = decisionTrail (fst (checkStartDraw estimator env config context dac))"
  "decisionTrail (fst (checkFinishDraw (env\<lparr>sendPopulatedTx := s\<rparr>) config context dac))
     = decisionTrail (fst (checkFinishDraw env config context dac))"
  "decisionTrail (fst (checkStartDraw_p0 (env\<lparr>sendPopulatedTx := s\<rparr>) config context dac))
     = decisionTrail (fst (checkStartDraw_p0 env config context dac))"
  "decisionTrail (fst (checkAwardDraw (env\<lparr>sendPopulatedTx := s\<rparr>) config context dac))
     = decisionTrail (fst (checkAwardDraw env config context dac))"
  by (simp_all add: checkStartDraw_def checkFinishDraw_def checkStartDraw_p0_def
      checkAwardDraw_def gas_cost_without_submission dispatch_without_submission
      fst_io_bind snd_io_bind decisionTrail_append Let_def
      split: sum.splits prod.splits)

lemma printContext_clock:
  "decisionTrail (fst (printContext T ch context now)) = []"
  "snd (printContext T ch context now) = snd (printContext T ch context now')"
  "decisionTrail (fst (printContext_p0 T ch context now)) = []"
  "snd (printContext_p0 T ch context now) = snd (printContext_p0 T ch context now')"
  by (simp_all add: printContext_def printContext_p0_def formatUnits_def io_defs
      decisionTrail_def split: option.splits)

lemma run_decisions:
  "decisionTrail (fst (runDrawAuction T estimator (env\<lparr>sendPopulatedTx := s\<rparr>) config context dac
       now'))
     = decisionTrail (fst (runDrawAuction T estimator env config context dac now))"
  "decisionTrail (fst (runDrawAuction_p0 T (env\<lparr>sendPopulatedTx := s\<rparr>) config context dac now'))
     = decisionTrail (fst (runDrawAuction_p0 T env config context dac now))"
  using printContext_clock(2) [of T "chainId config" "context" now' now]
    printContext_clock(4) [of T "chainId config" "context" now' now]
  by (simp_all add: runDrawAuction_def runDrawAuction_p0_def fst_io_bind snd_io_bind
      decisionTrail_append printContext_clock(1,3) check_without_submission
      split: sum.splits option.splits)

text \<open>
  Claim C8. For a fixed snapshot and fixed collaborator answers (gas estimates, gas price,
  fee conversion), two runs of the cycle give the same phase classification, the same gross
  and net profit with the same profitable flag, the same forced flag, the same gas
  estimates requested, the same gas units priced and the same transactions handed to the
  submission collaborator. The two runs may read different clocks and the submission
  collaborator may answer them differently (a hash once, a failure the other time): only
  the clock line of the report, the reported hash and the outcome of the submission
  follow these.
\<close>

theorem decisions_fixed_by_snapshot_and_answers:
  "classification (fst (runDrawAuction T estimator (env\<lparr>sendPopulatedTx := s\<rparr>) config context
       dac now'))
     = classification (fst (runDrawAuction T estimator env config context dac now))
   \<and> profitReports (fst (runDrawAuction T estimator (env\<lparr>sendPopulatedTx := s\<rparr>) config context
       dac now'))
     = profitReports (fst (runDrawAuction T estimator env config context dac now))
   \<and> estimatesRequested (fst (runDrawAuction T estimator (env\<lparr>sendPopulatedTx := s\<rparr>) config
       context dac now'))
     = estimatesRequested (fst (runDrawAuction T estimator env config context dac now))
   \<and> gasUnitsConverted (fst (runDrawAuction T estimator (env\<lparr>sendPopulatedTx := s\<rparr>) config
       context dac now'))
     = gasUnitsConverted (fst (runDrawAuction T estimator env config context dac now))
   \<and> transactionsSent (fst (runDrawAuction T estimator (env\<lparr>sendPopulatedTx := s\<rparr>) config
       context dac now'))
     = transactionsSent (fst (runDrawAuction T estimator env config context dac now))
   \<and> classification (fst (runDrawAuction_p0 T (env\<lparr>sendPopulatedTx := s\<rparr>) config context dac
       now'))
     = classification (fst (runDrawAuction_p0 T env config context dac now))
   \<and> profitReports (fst (runDrawAuction_p0 T (env\<lparr>sendPopulatedTx := s\<rparr>) config context dac
       now'))
     = profitReports (fst (runDrawAuction_p0 T env config context dac now))
   \<and> forceReports (fst (runDrawAuction_p0 T (env\<lparr>sendPopulatedTx := s\<rparr>) config context dac
       now'))
     = forceReports (fst (runDrawAuction_p0 T env config context dac now))
   \<and> estimatesRequested (fst (runDrawAuction_p0 T (env\<lparr>sendPopulatedTx := s\<rparr>) config context
       dac now'))
     = estimatesRequested (fst (runDrawAuction_p0 T env config context dac now))
   \<and> gasUnitsConverted (fst (runDrawAuction_p0 T (env\<lparr>sendPopulatedTx := s\<rparr>) config context
       dac now'))
     = gasUnitsConverted (fst (runDrawAuction_p0 T env config context dac now))
   \<and> transactionsSent (fst (runDrawAuction_p0 T (env\<lparr>sendPopulatedTx := s\<rparr>) config context dac
       now'))
     = transactionsSent (fst (runDrawAuction_p0 T env config context dac now))"
proof -
  let ?a = "fst (runDrawAuction T estimator (env\<lparr>sendPopulatedTx := s\<rparr>) config context dac now')"
  let ?b = "fst (runDrawAuction T estimator env config context dac now)"
  let ?c = "fst (runDrawAuction_p0 T (env\<lparr>sendPopulatedTx := s\<rparr>) config context dac now')"
  let ?d = "fst (runDrawAuction_p0 T env config context dac now)"
  have ab: "decisionTrail ?a = decisionTrail ?b" and cd: "decisionTrail ?c = decisionTrail ?d"
    by (rule run_decisions)+
  have "classification ?a = classification ?b" "profitReports ?a = profitReports ?b"
    "estimatesRequested ?a = estimatesRequested ?b" "gasUnitsConverted ?a = gasUnitsConverted ?b"
    "transactionsSent ?a = transactionsSent ?b"
    using projections_of_decisionTrail [of ?a] projections_of_decisionTrail [of ?b]
    by (simp_all only: ab)
  moreover have "classification ?c = classification ?d" "profitReports ?c = profitReports ?d"
    "forceReports ?c = forceReports ?d"
    "estimatesRequested ?c = estimatesRequested ?d" "gasUnitsConverted ?c = gasUnitsConverted ?d"
    "transactionsSent ?c = transactionsSent ?d"
    using projections_of_decisionTrail [of ?c] projections_of_decisionTrail [of ?d]
    by (simp_all only: cd)
  ultimately show ?thesis
    by (intro conjI)
qed

text \<open>
  An award-draw cycle, run once at clock 0 with a submission that succeeds and once at
  clock 60000 with a submission that fails: both runs classify the snapshot as an award,
  report a gross profit of 1, a net profit of -3, not profitable and forced, and hand over
  the same transaction; the outcomes differ.
\<close>

theorem decisions_fixed_by_snapshot_and_answers_witness:
  "classification (fst (runDrawAuction_p0 exTokenInfo
       ((exEnv (Some 700000) 100000)\<lparr>sendPopulatedTx := (\<lambda>c gl gp fb tp. None)\<rparr>) exConfig
       (exContext (Some Award) 12 1 True) exContracts 60000)) = [Award]
   \<and> classification (fst (runDrawAuction_p0 exTokenInfo (exEnv (Some 700000) 100000) exConfig
       (exContext (Some Award) 12 1 True) exContracts 0)) = [Award]
   \<and> profitReports (fst (runDrawAuction_p0 exTokenInfo
       ((exEnv (Some 700000) 100000)\<lparr>sendPopulatedTx := (\<lambda>c gl gp fb tp. None)\<rparr>) exConfig
       (exContext (Some Award) 12 1 True) exContracts 60000)) = [(Num 1, Num (- 3), False)]
   \<and> profitReports (fst (runDrawAuction_p0 exTokenInfo (exEnv (Some 700000) 100000) exConfig
       (exContext (Some Award) 12 1 True) exContracts 0)) = [(Num 1, Num (- 3), False)]
   \<and> forceReports (fst (runDrawAuction_p0 exTokenInfo
       ((exEnv (Some 700000) 100000)\<lparr>sendPopulatedTx := (\<lambda>c gl gp fb tp. None)\<rparr>) exConfig
       (exContext (Some Award) 12 1 True) exContracts 60000)) = [True]
   \<and> forceReports (fst (runDrawAuction_p0 exTokenInfo (exEnv (Some 700000) 100000) exConfig
       (exContext (Some Award) 12 1 True) exContracts 0)) = [True]
   \<and> transactionsSent (fst (runDrawAuction_p0 exTokenInfo
       ((exEnv (Some 700000) 100000)\<lparr>sendPopulatedTx := (\<lambda>c gl gp fb tp. None)\<rparr>) exConfig
       (exContext (Some Award) 12 1 True) exContracts 60000))
      = [(\<lparr>target = ''0xDrawManager'', fname = ''awardDraw'', args = [Str ''0xRecipient''],
            callValue = None\<rparr>, 800000)]
   \<and> snd (runDrawAuction_p0 exTokenInfo
       ((exEnv (Some 700000) 100000)\<lparr>sendPopulatedTx := (\<lambda>c gl gp fb tp. None)\<rparr>) exConfig
       (exContext (Some Award) 12 1 True) exContracts 60000) = Inl SubmissionFailed
   \<and> snd (runDrawAuction_p0 exTokenInfo (exEnv (Some 700000) 100000) exConfig
       (exContext (Some Award) 12 1 True) exContracts 0) = Inr ()"
proof -
  let ?r = "runDrawAuction_p0 exTokenInfo (exEnv (Some 700000) 100000) exConfig
       (exContext (Some Award) 12 1 True) exContracts 0"
  have r: "classification (fst ?r) = [Award]" "profitReports (fst ?r) = [(Num 1, Num (- 3), False)]"
    "forceReports (fst ?r) = [True]"
    "transactionsSent (fst ?r)
      = [(\<lparr>target = ''0xDrawManager'', fname = ''awardDraw'', args = [Str ''0xRecipient''],
            callValue = None\<rparr>, 800000)]"
    "snd ?r = Inr ()"
    by (simp_all add: runDrawAuction_p0_def printContext_p0_def cycle_defs io_defs params_defs
        trace_defs ex_defs Let_def sample_roundings)
  have f: "snd (runDrawAuction_p0 exTokenInfo
       ((exEnv (Some 700000) 100000)\<lparr>sendPopulatedTx := (\<lambda>c gl gp fb tp. None)\<rparr>) exConfig
       (exContext (Some Award) 12 1 True) exContracts 60000) = Inl SubmissionFailed"
    by (simp add: runDrawAuction_p0_def printContext_p0_def cycle_defs io_defs params_defs
        ex_defs Let_def sample_roundings)
  show ?thesis
    using r f decisions_fixed_by_snapshot_and_answers [of exTokenInfo _
        "\<lambda>c gl gp fb tp. None" "exEnv (Some 700000) 100000" exConfig
        "exContext (Some Award) 12 1 True" exContracts 60000 0]
    by simp
qed

text \<open>The line that reads the clock does differ between two runs.\<close>

lemma clock_is_reported:
  "fst (runDrawAuction exTokenInfo estimator env exConfig (exContext None 12 1 True) exContracts 0)
     = [PrintContext (Num 100), Console noAuction]"
  "fst (runDrawAuction exTokenInfo estimator env exConfig (exContext None 12 1 True) exContracts
       60000)
     = [PrintContext (Num 99), Console noAuction]"
  by (simp_all add: runDrawAuction_def printContext_def formatUnits_def minutesUntilClose_def
      io_defs ex_defs sample_roundings)

subsection \<open>The value attached to the Witnet start-draw transaction\<close>

text \<open>
  Claim C9. In \<^verbatim>\<open>part_000\<close> the value attached to the Witnet start-draw transaction is
  twice the snapshot's RNG fee estimate, both in the parameter object and in the
  transaction handed to the submission collaborator, while the phase-one net profit
  deducts the single \<^verbatim>\<open>rngFeeEstimateUsd\<close>. In \<^verbatim>\<open>drawAuction.ts\<close> the attached value is
  the fee estimate itself.
\<close>

theorem witnet_value_doubled_in_part_000:
  "js_get (buildStartDrawTxParams config context dac) ''value''
     = Some (Big (rngFeeEstimate context * 2))
   \<and> (rngWitnetContract dac = Some w \<longrightarrow>
        transactionsSent (fst (sendPopulatedStartDrawTransaction_p0 env config context dac))
          = [(\<lparr>target = w, fname = ''startDraw'',
                args = [Str (drawManagerContract dac), Str (rewardRecipient config)],
                callValue = Some (Big (rngFeeEstimate context * 2))\<rparr>, 850000)])
   \<and> fst (calculateStartDrawProfit_p0 config context g)
       = [ProfitReport (startDrawFeeUsd context)
            (js_sub (js_sub (startDrawFeeUsd context) g) (rngFeeEstimateUsd context))
            (js_gt (js_sub (js_sub (startDrawFeeUsd context) g) (rngFeeEstimateUsd context))
               (minProfitThresholdUsd config))]
   \<and> js_get (buildRngWitnetStartDrawTxParams config context dac) ''value''
       = Some (Big (rngFeeEstimate context))
   \<and> fst (getRngWitnetStartDrawEstimatedGasLimit env (Some w)
             (buildRngWitnetStartDrawTxParams config context dac))
       = [EstimateGas \<lparr>target = w, fname = ''startDraw'',
            args = [Big (rngFeeEstimate context), Str (drawManagerContract dac),
                    Str (rewardRecipient config)],
            callValue = Some (Big (rngFeeEstimate context))\<rparr>]"
  by (simp add: params_defs sendPopulatedStartDrawTransaction_p0_def
      transformStartDrawTxParams_eq transformRngWitnetStartDrawTxParams_eq io_defs trace_defs
      calculateStartDrawProfit_p0_def getRngWitnetStartDrawEstimatedGasLimit_def Let_def
      split: option.splits)

theorem witnet_value_doubled_in_part_000_witness:
  "rngWitnetContract exContracts = Some ''0xRngWitnet''
   \<and> transactionsSent (fst (sendPopulatedStartDrawTransaction_p0 (exEnv None 1) exConfig
         (exContext (Some Start) 12 1 True) exContracts))
      = [(\<lparr>target = ''0xRngWitnet'', fname = ''startDraw'',
            args = [Str ''0xDrawManager'', Str ''0xRecipient''],
            callValue = Some (Big 2000)\<rparr>, 850000)]"
proof -
  have h: "rngWitnetContract exContracts = Some ''0xRngWitnet''"
    by (simp add: exContracts_def)
  show ?thesis
    using h witnet_value_doubled_in_part_000 [of exConfig "exContext (Some Start) 12 1 True"
        exContracts "''0xRngWitnet''" "exEnv None 1" "Num 0"]
    by (simp add: ex_defs)
qed

subsection \<open>Splitting the value off the parameters\<close>

lemma map_of_js_delete:
  "map_of (js_delete k ob) k' = (if k' = k then None else map_of ob k')"
  by (induction ob) (auto simp: js_delete_def)

text \<open>
  Claim C10. For a parameter object in the store, either transform function returns the
  object's \<^verbatim>\<open>value\<close> property together with a newly allocated object that holds the
  remaining properties, unchanged and in order, and no \<^verbatim>\<open>value\<close>; the store keeps every
  object it had, the argument included: only the copy is changed.
\<close>

theorem transform_splits_value_off_a_copy:
  assumes "txParams < length h"
  shows "(case transformRngWitnetStartDrawTxParams_heap h txParams of
            None \<Rightarrow> False
          | Some (h', value, transformedTxParams) \<Rightarrow>
              value = js_get (h ! txParams) ''value''
              \<and> h' ! transformedTxParams = filter (\<lambda>p. fst p \<noteq> ''value'') (h ! txParams)
              \<and> js_get (h' ! transformedTxParams) ''value'' = None
              \<and> js_get (h' ! transformedTxParams) ''rngPaymentAmount''
                  = js_get (h ! txParams) ''rngPaymentAmount''
              \<and> js_get (h' ! transformedTxParams) ''drawManagerAddress''
                  = js_get (h ! txParams) ''drawManagerAddress''
              \<and> js_get (h' ! transformedTxParams) ''rewardRecipient''
                  = js_get (h ! txParams) ''rewardRecipient''
              \<and> transformedTxParams = length h
              \<and> length h' = Suc (length h)
              \<and> take (length h) h' = h
              \<and> h' ! txParams = h ! txParams)
         \<and> transformStartDrawTxParams_heap h txParams
             = transformRngWitnetStartDrawTxParams_heap h txParams"
  using assms
  by (simp add: transformRngWitnetStartDrawTxParams_heap_def transformStartDrawTxParams_heap_def
      js_spread_def Let_def nth_append js_get_def map_of_js_delete)
    (simp add: js_delete_def)

theorem transform_splits_value_off_a_copy_witness:
  "(0 :: nat) < length [buildRngWitnetStartDrawTxParams exConfig (exContext (Some Start) 12 1 True) exContracts]
   \<and> transformRngWitnetStartDrawTxParams_heap
        [buildRngWitnetStartDrawTxParams exConfig (exContext (Some Start) 12 1 True) exContracts] 0
      = Some ([[(''rngPaymentAmount'', Big 1000), (''drawManagerAddress'', Str ''0xDrawManager''),
                (''rewardRecipient'', Str ''0xRecipient''), (''value'', Big 1000)],
               [(''rngPaymentAmount'', Big 1000), (''drawManagerAddress'', Str ''0xDrawManager''),
                (''rewardRecipient'', Str ''0xRecipient'')]],
              Some (Big 1000), 1)
   \<and> transformStartDrawTxParams_heap
        [buildStartDrawTxParams exConfig (exContext (Some Start) 12 1 True) exContracts] 0
      = Some ([[(''drawManagerAddress'', Str ''0xDrawManager''),
                (''rewardRecipient'', Str ''0xRecipient''), (''value'', Big 2000)],
               [(''drawManagerAddress'', Str ''0xDrawManager''),
                (''rewardRecipient'', Str ''0xRecipient'')]],
              Some (Big 2000), 1)"
proof -
  let ?h = "[buildRngWitnetStartDrawTxParams exConfig (exContext (Some Start) 12 1 True) exContracts]"
  let ?h0 = "[buildStartDrawTxParams exConfig (exContext (Some Start) 12 1 True) exContracts]"
  have h: "(0 :: nat) < length ?h" and h0: "(0 :: nat) < length ?h0"
    by simp_all
  show ?thesis
    using h transform_splits_value_off_a_copy [OF h] transform_splits_value_off_a_copy [OF h0]
    by (simp add: transformRngWitnetStartDrawTxParams_heap_def js_spread_def Let_def
        params_defs ex_defs)
qed

subsection \<open>The force override\<close>




text \<open>
  The loss is compared as a double: with an award-draw reward of \<^verbatim>\<open>1.1600000000000004\<close>
  and a gas cost of \<^verbatim>\<open>6.16\<close> the computed net profit is \<^verbatim>\<open>-5\<close>, which is not above the
  limit, and with the auction closing soon nothing is forced and nothing is sent.
\<close>

lemma force_override_is_computed_in_doubles:
  "profitReports (fst (checkAwardDraw
       ((exEnv None 1)\<lparr>getFeesUsd := (\<lambda>ch g r dat. round_double (616 / 100))\<rparr>) exConfig
       ((exContext (Some Award) 0 0 True)
          \<lparr>awardDrawFeeUsd := round_double (11600000000000004 / 10000000000000000)\<rparr>)
       exContracts))
     = [(round_double (11600000000000004 / 10000000000000000), Num (- 5), False)]"
  "forceReports (fst (checkAwardDraw
       ((exEnv None 1)\<lparr>getFeesUsd := (\<lambda>ch g r dat. round_double (616 / 100))\<rparr>) exConfig
       ((exContext (Some Award) 0 0 True)
          \<lparr>awardDrawFeeUsd := round_double (11600000000000004 / 10000000000000000)\<rparr>)
       exContracts))
     = [False]"
  "transactionsSent (fst (checkAwardDraw
       ((exEnv None 1)\<lparr>getFeesUsd := (\<lambda>ch g r dat. round_double (616 / 100))\<rparr>) exConfig
       ((exContext (Some Award) 0 0 True)
          \<lparr>awardDrawFeeUsd := round_double (11600000000000004 / 10000000000000000)\<rparr>)
       exContracts))
     = []"
  by (simp_all add: cycle_defs io_defs params_defs trace_defs ex_defs Let_def
      decimal_roundings_lowest_terms)

subsection \<open>A failed or zero gas estimate\<close>

text \<open>
  \<^verbatim>\<open>getGasCostUsd\<close> answers a missing or zero gas limit with a cost of zero, and in
  \<^verbatim>\<open>part_000\<close> a start-draw estimate that fails or is zero ends the cycle with no fee
  conversion and no dispatch.
\<close>

lemma getGasCostUsd_zero:
  "getGasCostUsd env config None rate populatedTx = ([Console ''Estimated gas limit is 0 ...''], Num 0)"
  "getGasCostUsd env config (Some 0) rate populatedTx = ([Console ''Estimated gas limit is 0 ...''], Num 0)"
  by (simp_all add: getGasCostUsd_def)

lemma zero_estimate_aborts_part_000:
  assumes "rngWitnetContract dac = Some w"
    and "estimateGas env \<lparr>target = w, fname = ''startDraw'',
           args = [Str (drawManagerContract dac), Str (rewardRecipient config)],
           callValue = Some (Big (rngFeeEstimate context * 2))\<rparr> \<in> {None, Some 0}"
  shows "snd (checkStartDraw_p0 env config context dac) = Inr ()"
    and "transactionsSent (fst (checkStartDraw_p0 env config context dac)) = []"
    and "gasUnitsConverted (fst (checkStartDraw_p0 env config context dac)) = []"
  using assms
  by (auto simp add: cycle_defs io_defs params_defs trace_defs Let_def)

text \<open>
  Claim C3 says that a failed or zero gas estimate gives a zero cost and ends the cycle
  without dispatch. \<^verbatim>\<open>drawAuction.ts\<close> adds the buffer to the estimate before
  \<^verbatim>\<open>getGasCostUsd\<close> sees it: a failed estimate ends the cycle with a \<open>TypeError\<close>, in
  both phases, and a zero estimate is priced at 100000 gas units and the transaction is
  dispatched when that is profitable.
\<close>

theorem failed_estimate_propagates_in_drawAuction_ts:
  "checkFinishDraw (exEnv None 200000) exConfig (exContext (Some Finish) 12 12 True) exContracts
     = ([EstimateGas \<lparr>target = ''0xDrawManager'', fname = ''startDraw'',
           args = [Str ''0xRecipient''], callValue = None\<rparr>], Inl TypeError)
   \<and> checkStartDraw (getRngWitnetStartDrawEstimatedGasLimit (exEnv None 200000))
       (exEnv None 200000) exConfig (exContext (Some Start) 12 12 True) exContracts
     = ([EstimateGas \<lparr>target = ''0xRngWitnet'', fname = ''startDraw'',
           args = [Big 1000, Str ''0xDrawManager'', Str ''0xRecipient''],
           callValue = Some (Big 1000)\<rparr>], Inl TypeError)
   \<and> snd (checkFinishDraw (exEnv (Some 0) 200000) exConfig (exContext (Some Finish) 12 12 True)
        exContracts) = Inr ()
   \<and> gasUnitsConverted (fst (checkFinishDraw (exEnv (Some 0) 200000) exConfig
        (exContext (Some Finish) 12 12 True) exContracts)) = [100000]
   \<and> transactionsSent (fst (checkFinishDraw (exEnv (Some 0) 200000) exConfig
        (exContext (Some Finish) 12 12 True) exContracts))
     = [(\<lparr>target = ''0xDrawManager'', fname = ''finishDraw'', args = [Str ''0xRecipient''],
          callValue = None\<rparr>, 100000)]
   \<and> transactionsSent (fst (checkStartDraw (getRngWitnetStartDrawEstimatedGasLimit
        (exEnv (Some 0) 200000)) (exEnv (Some 0) 200000) exConfig
        (exContext (Some Start) 12 12 True) exContracts))
     = [(\<lparr>target = ''0xRngWitnet'', fname = ''startDraw'',
           args = [Big 1000, Str ''0xDrawManager'', Str ''0xRecipient''],
           callValue = Some (Big 1000)\<rparr>, 100000)]"
  by (simp add: cycle_defs io_defs params_defs trace_defs ex_defs Let_def sample_roundings)

subsection \<open>The call whose gas is estimated\<close>

lemma checkStartDraw_p0_estimates_one_call:
  "rngWitnetContract dac = Some w \<Longrightarrow>
      set (estimatesRequested (fst (checkStartDraw_p0 env config context dac)))
        = {\<lparr>target = w, fname = ''startDraw'',
             args = [Str (drawManagerContract dac), Str (rewardRecipient config)],
             callValue = Some (Big (rngFeeEstimate context * 2))\<rparr>}"
  by (simp add: cycle_defs io_defs params_defs trace_defs Let_def split: option.splits)

lemma checkStartDraw_p0_sends_that_call:
  "rngWitnetContract dac = Some w \<Longrightarrow>
      set (map fst (transactionsSent (fst (checkStartDraw_p0 env config context dac))))
        \<subseteq> {\<lparr>target = w, fname = ''startDraw'',
             args = [Str (drawManagerContract dac), Str (rewardRecipient config)],
             callValue = Some (Big (rngFeeEstimate context * 2))\<rparr>}"
  by (simp add: cycle_defs io_defs params_defs trace_defs Let_def split: option.splits)

lemma checkStartDraw_witnet_estimates_one_call:
  "rngWitnetContract dac = Some w \<Longrightarrow>
      set (estimatesRequested (fst (checkStartDraw
               (getRngWitnetStartDrawEstimatedGasLimit env) env config context dac)))
        = {\<lparr>target = w, fname = ''startDraw'',
             args = [Big (rngFeeEstimate context), Str (drawManagerContract dac),
                     Str (rewardRecipient config)],
             callValue = Some (Big (rngFeeEstimate context))\<rparr>}"
  by (simp add: cycle_defs io_defs params_defs trace_defs Let_def split: option.splits)

lemma checkStartDraw_witnet_sends_that_call:
  "rngWitnetContract dac = Some w \<Longrightarrow>
      set (map fst (transactionsSent (fst (checkStartDraw
               (getRngWitnetStartDrawEstimatedGasLimit env) env config context dac))))
        \<subseteq> {\<lparr>target = w, fname = ''startDraw'',
             args = [Big (rngFeeEstimate context), Str (drawManagerContract dac),
                     Str (rewardRecipient config)],
             callValue = Some (Big (rngFeeEstimate context))\<rparr>}"
  by (simp add: cycle_defs io_defs params_defs trace_defs Let_def split: option.splits)

lemma checkAwardDraw_requests_no_estimate:
  "estimatesRequested (fst (checkAwardDraw env config context dac)) = []"
  "gasUnitsConverted (fst (getAwardDrawGasCostUsd env (buildAwardDrawTxParams config)
        contract config context)) = [400000]"
  by (simp_all add: cycle_defs io_defs params_defs trace_defs Let_def split: option.splits)

text \<open>
  In \<^verbatim>\<open>drawAuction.ts\<close> the finish-draw cycle requests its estimates from
  \<^verbatim>\<open>estimateGas.startDraw\<close> of the draw manager and sends \<^verbatim>\<open>finishDraw\<close>.
\<close>

lemma finish_draw_cycle_estimates_startDraw:
  "estimatesRequested (fst (checkFinishDraw (exEnv (Some 500000) 200000) exConfig
       (exContext (Some Finish) 12 12 True) exContracts))
     = [\<lparr>target = ''0xDrawManager'', fname = ''startDraw'', args = [Str ''0xRecipient''],
          callValue = None\<rparr>,
        \<lparr>target = ''0xDrawManager'', fname = ''startDraw'', args = [Str ''0xRecipient''],
          callValue = None\<rparr>]"
  "transactionsSent (fst (checkFinishDraw (exEnv (Some 500000) 200000) exConfig
       (exContext (Some Finish) 12 12 True) exContracts))
     = [(\<lparr>target = ''0xDrawManager'', fname = ''finishDraw'', args = [Str ''0xRecipient''],
           callValue = None\<rparr>, 600000)]"
  by (simp_all add: cycle_defs io_defs params_defs trace_defs ex_defs Let_def sample_roundings)

text \<open>
  Claim C5, as stated, fails on \<^verbatim>\<open>part_000\<close>: the award-draw transaction is sent, its
  cost is computed from 400000 gas units, and no gas estimate is requested for any call.
\<close>

theorem award_draw_cost_uses_no_estimate:
  "transactionsSent (fst (checkAwardDraw (exEnv (Some 700000) 100000) exConfig
       (exContext (Some Award) 12 12 True) exContracts))
     = [(\<lparr>target = ''0xDrawManager'', fname = ''awardDraw'', args = [Str ''0xRecipient''],
          callValue = None\<rparr>, 800000)]
   \<and> gasUnitsConverted (fst (checkAwardDraw (exEnv (Some 700000) 100000) exConfig
       (exContext (Some Award) 12 12 True) exContracts)) = [400000]
   \<and> estimatesRequested (fst (checkAwardDraw (exEnv (Some 700000) 100000) exConfig
       (exContext (Some Award) 12 12 True) exContracts)) = []"
  by (simp add: cycle_defs io_defs params_defs trace_defs ex_defs Let_def sample_roundings)

text \<open>
  Claim C5, amended. For the Witnet start-draw transaction, every gas estimate the cycle
  requests is for one call, and a transaction the cycle sends is that call: same contract,
  same function, same arguments and same attached value. This holds in \<^verbatim>\<open>part_000\<close> and
  in \<^verbatim>\<open>drawAuction.ts\<close> with \<^verbatim>\<open>getRngWitnetStartDrawEstimatedGasLimit\<close> as the estimator.
  For the award draw, \<^verbatim>\<open>part_000\<close> requests no estimate and prices 400000 gas units.
\<close>

theorem start_draw_estimate_is_for_the_call_sent:
  "(rngWitnetContract dac = Some w \<longrightarrow>
      set (estimatesRequested (fst (checkStartDraw_p0 env config context dac)))
        = {\<lparr>target = w, fname = ''startDraw'',
             args = [Str (drawManagerContract dac), Str (rewardRecipient config)],
             callValue = Some (Big (rngFeeEstimate context * 2))\<rparr>}
      \<and> set (map fst (transactionsSent (fst (checkStartDraw_p0 env config context dac))))
        \<subseteq> set (estimatesRequested (fst (checkStartDraw_p0 env config context dac)))
      \<and> set (estimatesRequested (fst (checkStartDraw
               (getRngWitnetStartDrawEstimatedGasLimit env) env config context dac)))
        = {\<lparr>target = w, fname = ''startDraw'',
             args = [Big (rngFeeEstimate context), Str (drawManagerContract dac),
                     Str (rewardRecipient config)],
             callValue = Some (Big (rngFeeEstimate context))\<rparr>}
      \<and> set (map fst (transactionsSent (fst (checkStartDraw
               (getRngWitnetStartDrawEstimatedGasLimit env) env config context dac))))
        \<subseteq> set (estimatesRequested (fst (checkStartDraw
               (getRngWitnetStartDrawEstimatedGasLimit env) env config context dac))))
   \<and> estimatesRequested (fst (checkAwardDraw env config context dac)) = []
   \<and> gasUnitsConverted (fst (getAwardDrawGasCostUsd env (buildAwardDrawTxParams config)
        (drawManagerContract dac) config context)) = [400000]"
  by (intro conjI impI)
    (simp_all only: checkStartDraw_p0_estimates_one_call checkStartDraw_p0_sends_that_call
      checkStartDraw_witnet_estimates_one_call checkStartDraw_witnet_sends_that_call
      checkAwardDraw_requests_no_estimate)

theorem start_draw_estimate_is_for_the_call_sent_witness:
  "rngWitnetContract exContracts = Some ''0xRngWitnet''
   \<and> transactionsSent (fst (checkStartDraw_p0 (exEnv (Some 500000) 200000) exConfig
         (exContext (Some Start) 12 1 True) exContracts))
      = [(\<lparr>target = ''0xRngWitnet'', fname = ''startDraw'',
            args = [Str ''0xDrawManager'', Str ''0xRecipient''],
            callValue = Some (Big 2000)\<rparr>, 850000)]
   \<and> set (estimatesRequested (fst (checkStartDraw_p0 (exEnv (Some 500000) 200000) exConfig
         (exContext (Some Start) 12 1 True) exContracts)))
      = {\<lparr>target = ''0xRngWitnet'', fname = ''startDraw'',
            args = [Str ''0xDrawManager'', Str ''0xRecipient''],
            callValue = Some (Big 2000)\<rparr>}"
proof -
  have h: "rngWitnetContract exContracts = Some ''0xRngWitnet''"
    by (simp add: exContracts_def)
  have s: "transactionsSent (fst (checkStartDraw_p0 (exEnv (Some 500000) 200000) exConfig
         (exContext (Some Start) 12 1 True) exContracts))
      = [(\<lparr>target = ''0xRngWitnet'', fname = ''startDraw'',
            args = [Str ''0xDrawManager'', Str ''0xRecipient''],
            callValue = Some (Big 2000)\<rparr>, 850000)]"
    by (simp add: cycle_defs io_defs params_defs trace_defs ex_defs Let_def sample_roundings)
  have v: "drawManagerContract exContracts = ''0xDrawManager''"
    "rewardRecipient exConfig = ''0xRecipient''"
    "rngFeeEstimate (exContext (Some Start) 12 1 True) = 1000"
    by (simp_all add: ex_defs)
  show ?thesis
    using h s v start_draw_estimate_is_for_the_call_sent [of exContracts "''0xRngWitnet''"
        "exEnv (Some 500000) 200000" exConfig "exContext (Some Start) 12 1 True"]
    by simp
qed

subsection \<open>The gas buffer\<close>

text \<open>
  Claim C6, as stated, fails on \<^verbatim>\<open>part_000\<close>: a start-draw estimate of 500000 gas units
  goes to the fee conversion as 500000.
\<close>

theorem part_000_adds_no_buffer:
  "estimateGas (exEnv (Some 500000) 200000)
       \<lparr>target = ''0xRngWitnet'', fname = ''startDraw'',
        args = [Str ''0xDrawManager'', Str ''0xRecipient''],
        callValue = Some (Big 2000)\<rparr> = Some 500000
   \<and> getStartDrawGasCostUsd_p0 (exEnv (Some 500000) 200000) exConfig
       (exContext (Some Start) 12 1 True) exContracts
     = ([EstimateGas \<lparr>target = ''0xRngWitnet'', fname = ''startDraw'',
           args = [Str ''0xDrawManager'', Str ''0xRecipient''],
           callValue = Some (Big 2000)\<rparr>,
         GetGasPrice,
         GetFeesUsd 10 500000 (Num 2000)
           (''startDraw'', [Str ''0xDrawManager'', Str ''0xRecipient''])],
        Inr (Num (5 / 2)))"
  by (simp add: cycle_defs io_defs params_defs ex_defs Let_def)

text \<open>
  Claim C6, amended. In \<^verbatim>\<open>drawAuction.ts\<close> every successful estimate, for start draw
  (Witnet or Blockhash) and for finish draw, goes to the fee conversion with exactly
  100000 gas units added. In \<^verbatim>\<open>part_000\<close> nothing is added: a nonzero start-draw
  estimate is converted as it is, and the award draw converts the constant 400000.
\<close>

theorem gas_buffer_in_drawAuction_ts:
  "(rngWitnetContract dac = Some w
      \<and> estimator (Some w) (buildRngWitnetStartDrawTxParams config context dac) = (es, Some g)
    \<longrightarrow> getStartDrawGasCostUsd estimator env config context dac
          = (es @ [GetGasPrice,
                   GetFeesUsd (chainId config) (g + 100000) (nativeTokenMarketRateUsd context)
                     (''startDraw'', [Big (rngFeeEstimate context), Str (drawManagerContract dac),
                                      Str (rewardRecipient config)])],
             Inr (getFeesUsd env (chainId config) (g + 100000) (nativeTokenMarketRateUsd context)
                    (''startDraw'', [Big (rngFeeEstimate context), Str (drawManagerContract dac),
                                     Str (rewardRecipient config)]))))
   \<and> (rngWitnetContract dac = None \<and> rngBlockhashContract dac = Some b
      \<and> estimator (Some b) (buildRngBlockhashStartDrawTxParams config dac) = (es, Some g)
    \<longrightarrow> getStartDrawGasCostUsd estimator env config context dac
          = (es @ [GetGasPrice,
                   GetFeesUsd (chainId config) (g + 100000) (nativeTokenMarketRateUsd context)
                     (''startDraw'', [Str (drawManagerContract dac),
                                      Str (rewardRecipient config)])],
             Inr (getFeesUsd env (chainId config) (g + 100000) (nativeTokenMarketRateUsd context)
                    (''startDraw'', [Str (drawManagerContract dac),
                                     Str (rewardRecipient config)]))))
   \<and> (estimateGas env \<lparr>target = contract, fname = ''startDraw'',
          args = [Str (rewardRecipient config)], callValue = None\<rparr> = Some g
    \<longrightarrow> getFinishDrawGasCostUsd env (buildFinishDrawTxParams config) contract config context
          = ([EstimateGas \<lparr>target = contract, fname = ''startDraw'',
                args = [Str (rewardRecipient config)], callValue = None\<rparr>,
              GetGasPrice,
              GetFeesUsd (chainId config) (g + 100000) (nativeTokenMarketRateUsd context)
                (''finishDraw'', [Str (rewardRecipient config)])],
             Inr (getFeesUsd env (chainId config) (g + 100000) (nativeTokenMarketRateUsd context)
                    (''finishDraw'', [Str (rewardRecipient config)]))))
   \<and> (rngWitnetContract dac = Some w
      \<and> estimateGas env \<lparr>target = w, fname = ''startDraw'',
          args = [Str (drawManagerContract dac), Str (rewardRecipient config)],
          callValue = Some (Big (rngFeeEstimate context * 2))\<rparr> = Some g
      \<and> g \<noteq> 0
    \<longrightarrow> gasUnitsConverted (fst (getStartDrawGasCostUsd_p0 env config context dac)) = [g])
   \<and> gasUnitsConverted (fst (getAwardDrawGasCostUsd env (buildAwardDrawTxParams config)
        contract config context)) = [400000]"
  by (simp add: cycle_defs io_defs params_defs trace_defs Let_def)

theorem gas_buffer_in_drawAuction_ts_witness:
  "rngWitnetContract exContracts = Some ''0xRngWitnet''
   \<and> getRngWitnetStartDrawEstimatedGasLimit (exEnv (Some 500000) 200000) (Some ''0xRngWitnet'')
        (buildRngWitnetStartDrawTxParams exConfig (exContext (Some Start) 12 1 True) exContracts)
      = ([EstimateGas \<lparr>target = ''0xRngWitnet'', fname = ''startDraw'',
            args = [Big 1000, Str ''0xDrawManager'', Str ''0xRecipient''],
            callValue = Some (Big 1000)\<rparr>], Some 500000)
   \<and> getStartDrawGasCostUsd (getRngWitnetStartDrawEstimatedGasLimit (exEnv (Some 500000) 200000))
        (exEnv (Some 500000) 200000) exConfig (exContext (Some Start) 12 1 True) exContracts
      = ([EstimateGas \<lparr>target = ''0xRngWitnet'', fname = ''startDraw'',
            args = [Big 1000, Str ''0xDrawManager'', Str ''0xRecipient''],
            callValue = Some (Big 1000)\<rparr>,
          GetGasPrice,
          GetFeesUsd 10 600000 (Num 2000)
            (''startDraw'', [Big 1000, Str ''0xDrawManager'', Str ''0xRecipient''])],
         Inr (Num 3))
   \<and> estimateGas (exEnv (Some 500000) 200000)
        \<lparr>target = ''0xDrawManager'', fname = ''startDraw'',
         args = [Str ''0xRecipient''], callValue = None\<rparr> = Some 500000
   \<and> snd (getFinishDrawGasCostUsd (exEnv (Some 500000) 200000) (buildFinishDrawTxParams exConfig)
        ''0xDrawManager'' exConfig (exContext (Some Start) 12 1 True)) = Inr (Num 3)
   \<and> estimateGas (exEnv (Some 500000) 200000)
        \<lparr>target = ''0xRngWitnet'', fname = ''startDraw'',
         args = [Str ''0xDrawManager'', Str ''0xRecipient''],
         callValue = Some (Big 2000)\<rparr> = Some 500000
   \<and> (500000 :: nat) \<noteq> 0
   \<and> gasUnitsConverted (fst (getStartDrawGasCostUsd_p0 (exEnv (Some 500000) 200000) exConfig
        (exContext (Some Start) 12 1 True) exContracts)) = [500000]"
proof -
  have h: "rngWitnetContract exContracts = Some ''0xRngWitnet''"
    by (simp add: exContracts_def)
  have e: "getRngWitnetStartDrawEstimatedGasLimit (exEnv (Some 500000) 200000)
        (Some ''0xRngWitnet'')
        (buildRngWitnetStartDrawTxParams exConfig (exContext (Some Start) 12 1 True) exContracts)
      = ([EstimateGas \<lparr>target = ''0xRngWitnet'', fname = ''startDraw'',
            args = [Big 1000, Str ''0xDrawManager'', Str ''0xRecipient''],
            callValue = Some (Big 1000)\<rparr>], Some 500000)"
    by (simp add: cycle_defs io_defs params_defs ex_defs)
  have q: "estimateGas (exEnv (Some 500000) 200000) c = Some 500000" for c
    by (simp add: exEnv_def)
  have v: "drawManagerContract exContracts = ''0xDrawManager''"
    "rewardRecipient exConfig = ''0xRecipient''" "chainId exConfig = 10"
    "rngFeeEstimate (exContext (Some Start) 12 1 True) = 1000"
    "nativeTokenMarketRateUsd (exContext (Some Start) 12 1 True) = Num 2000"
    "getFeesUsd (exEnv (Some 500000) 200000) ch 600000 r dat = Num 3" for ch r dat
    by (simp_all add: ex_defs)
  show ?thesis
    using h e q v gas_buffer_in_drawAuction_ts [of exContracts "''0xRngWitnet''"
        "getRngWitnetStartDrawEstimatedGasLimit (exEnv (Some 500000) 200000)" exConfig
        "exContext (Some Start) 12 1 True"
        "[EstimateGas \<lparr>target = ''0xRngWitnet'', fname = ''startDraw'',
            args = [Big 1000, Str ''0xDrawManager'', Str ''0xRecipient''],
            callValue = Some (Big 1000)\<rparr>]" 500000 "exEnv (Some 500000) 200000"
        "''0xNone''" "''0xDrawManager''"]
    by simp
qed

subsection \<open>The gas limit of a dispatched transaction\<close>

text \<open>
  Claim C7, as stated, fails on \<^verbatim>\<open>drawAuction.ts\<close>: the finish-draw transaction is sent
  with a gas limit of 600000 when the estimate is 500000 and of 400000 when it is 300000,
  not with 800000.
\<close>

theorem drawAuction_ts_gas_limit_follows_estimate:
  "transactionsSent (fst (checkFinishDraw (exEnv (Some 500000) 200000) exConfig
       (exContext (Some Finish) 12 12 True) exContracts))
     = [(\<lparr>target = ''0xDrawManager'', fname = ''finishDraw'', args = [Str ''0xRecipient''],
           callValue = None\<rparr>, 600000)]
   \<and> transactionsSent (fst (checkFinishDraw (exEnv (Some 300000) 200000) exConfig
       (exContext (Some Finish) 12 12 True) exContracts))
     = [(\<lparr>target = ''0xDrawManager'', fname = ''finishDraw'', args = [Str ''0xRecipient''],
           callValue = None\<rparr>, 400000)]
   \<and> transactionsSent (fst (sendPopulatedFinishDrawTransaction (exEnv (Some 500000) 200000)
       exConfig (buildFinishDrawTxParams exConfig) (drawManagerContract exContracts)))
     = [(\<lparr>target = ''0xDrawManager'', fname = ''finishDraw'', args = [Str ''0xRecipient''],
           callValue = None\<rparr>, 600000)]"
  by (simp add: cycle_defs io_defs params_defs trace_defs ex_defs Let_def sample_roundings)

text \<open>
  Claim C7, amended. In \<^verbatim>\<open>part_000\<close> the gas limit handed to the submission
  collaborator is 850000 for start draw and 800000 for award draw, whatever the
  collaborators answer. In \<^verbatim>\<open>drawAuction.ts\<close> it is the estimate taken at dispatch plus
  100000: for finish draw, and for start draw whenever the estimator of the start-draw
  path returns an estimate.
\<close>

theorem gas_limit_handed_to_submission:
  "(rngWitnetContract dac = Some w \<longrightarrow>
      map snd (transactionsSent (fst (sendPopulatedStartDrawTransaction_p0 env config context dac)))
        = [850000])
   \<and> map snd (transactionsSent (fst (sendPopulatedAwardDrawTransaction env config txParams
        contract))) = [800000]
   \<and> (rngWitnetContract dac = Some w
      \<and> estimator (Some w) (buildRngWitnetStartDrawTxParams config context dac) = (es, Some g)
      \<and> transactionsSent es = []
    \<longrightarrow> map snd (transactionsSent (fst (sendPopulatedStartDrawTransaction estimator env config
            context dac))) = [g + 100000])
   \<and> (estimateGas env \<lparr>target = contract, fname = ''startDraw'',
          args = [Str (rewardRecipient config)], callValue = None\<rparr> = Some g
    \<longrightarrow> map snd (transactionsSent (fst (sendPopulatedFinishDrawTransaction env config
            (buildFinishDrawTxParams config) contract))) = [g + 100000])"
  by (simp add: cycle_defs io_defs params_defs trace_defs Let_def split: option.splits)

theorem gas_limit_handed_to_submission_witness:
  "rngWitnetContract exContracts = Some ''0xRngWitnet''
   \<and> map snd (transactionsSent (fst (sendPopulatedStartDrawTransaction_p0
        (exEnv (Some 500000) 200000) exConfig (exContext (Some Start) 12 1 True) exContracts)))
      = [850000]
   \<and> getRngWitnetStartDrawEstimatedGasLimit (exEnv (Some 500000) 200000) (Some ''0xRngWitnet'')
        (buildRngWitnetStartDrawTxParams exConfig (exContext (Some Start) 12 1 True) exContracts)
      = ([EstimateGas \<lparr>target = ''0xRngWitnet'', fname = ''startDraw'',
            args = [Big 1000, Str ''0xDrawManager'', Str ''0xRecipient''],
            callValue = Some (Big 1000)\<rparr>], Some 500000)
   \<and> transactionsSent [EstimateGas \<lparr>target = ''0xRngWitnet'', fname = ''startDraw'',
            args = [Big 1000, Str ''0xDrawManager'', Str ''0xRecipient''],
            callValue = Some (Big 1000)\<rparr>] = []
   \<and> map snd (transactionsSent (fst (sendPopulatedStartDrawTransaction
        (getRngWitnetStartDrawEstimatedGasLimit (exEnv (Some 500000) 200000))
        (exEnv (Some 500000) 200000) exConfig (exContext (Some Start) 12 1 True) exContracts)))
      = [600000]
   \<and> estimateGas (exEnv (Some 500000) 200000)
        \<lparr>target = ''0xDrawManager'', fname = ''startDraw'',
         args = [Str ''0xRecipient''], callValue = None\<rparr> = Some 500000
   \<and> map snd (transactionsSent (fst (sendPopulatedFinishDrawTransaction
        (exEnv (Some 500000) 200000) exConfig (buildFinishDrawTxParams exConfig)
        ''0xDrawManager''))) = [600000]"
proof -
  have h: "rngWitnetContract exContracts = Some ''0xRngWitnet''"
    by (simp add: exContracts_def)
  have e: "getRngWitnetStartDrawEstimatedGasLimit (exEnv (Some 500000) 200000)
        (Some ''0xRngWitnet'')
        (buildRngWitnetStartDrawTxParams exConfig (exContext (Some Start) 12 1 True) exContracts)
      = ([EstimateGas \<lparr>target = ''0xRngWitnet'', fname = ''startDraw'',
            args = [Big 1000, Str ''0xDrawManager'', Str ''0xRecipient''],
            callValue = Some (Big 1000)\<rparr>], Some 500000)"
    by (simp add: cycle_defs io_defs params_defs ex_defs)
  have t: "transactionsSent [EstimateGas c] = []" for c
    by (simp add: trace_defs)
  have q: "estimateGas (exEnv (Some 500000) 200000) c = Some 500000" for c
    by (simp add: exEnv_def)
  have v: "rewardRecipient exConfig = ''0xRecipient''"
    by (simp add: ex_defs)
  show ?thesis
    using h e t q v gas_limit_handed_to_submission [of exContracts "''0xRngWitnet''"
        "exEnv (Some 500000) 200000" exConfig "exContext (Some Start) 12 1 True"
        "buildFinishDrawTxParams exConfig" "''0xDrawManager''"
        "getRngWitnetStartDrawEstimatedGasLimit (exEnv (Some 500000) 200000)"
        "[EstimateGas \<lparr>target = ''0xRngWitnet'', fname = ''startDraw'',
            args = [Big 1000, Str ''0xDrawManager'', Str ''0xRecipient''],
            callValue = Some (Big 1000)\<rparr>]" 500000]
    by simp
qed

end
